theory Spec2Isabelle
  imports Main "HOL-Library.Multiset"
begin

section \<open>Platform: configuration, HTTP requests and JSON bodies\<close>

text \<open>
  The tools read two configuration values through \<^verbatim>\<open>env\<close>, issue HTTP requests
  with \<^verbatim>\<open>fetch\<close> and read the replies with \<^verbatim>\<open>res.json()\<close>. A JavaScript
  string is a \<open>string\<close> here, one \<open>char\<close> per code unit. A value that may be
  \<^verbatim>\<open>undefined\<close> is an \<open>option\<close>.
\<close>

definition truthy :: "string option \<Rightarrow> bool" where
  "truthy v = (case v of None \<Rightarrow> False | Some s \<Rightarrow> s \<noteq> [])"

definition or_default :: "string option \<Rightarrow> string \<Rightarrow> string" where
  \<comment> \<open>\<^verbatim>\<open>v || d\<close> on an optional string\<close>
  "or_default v d = (case v of None \<Rightarrow> d | Some s \<Rightarrow> if s = [] then d else s)"

definition strip_trailing_slashes :: "string \<Rightarrow> string" where
  \<comment> \<open>\<^verbatim>\<open>.replace(/\/+$/, "")\<close>\<close>
  "strip_trailing_slashes u = rev (dropWhile (\<lambda>c. c = CHR ''/'') (rev u))"

type_synonym props = "(string \<times> string) list"

datatype http_method = GET | POST | PATCH

datatype payload =
    Properties props
  | Search string string string "string list"

text \<open>
  A request: the method, the URL, the token of the \<^verbatim>\<open>Authorization: Bearer\<close>
  header and the JSON body. \<open>Properties ps\<close> is \<^verbatim>\<open>{ properties }\<close>;
  \<open>Search p op v fields\<close> is the search body with one filter
  \<^verbatim>\<open>{ propertyName: p, operator: op, value: v }\<close> and the requested fields.
\<close>

record request =
  verb :: http_method
  url :: string
  bearer :: string
  content :: "payload option"

text \<open>
  Reply bodies, at the types the source casts them to: every field is optional, a
  property map is \<^verbatim>\<open>Record<string, string>\<close>. An entry of \<^verbatim>\<open>results\<close>
  is an association (\<^verbatim>\<open>toObjectId\<close>), a contact found by a search
  (\<^verbatim>\<open>id\<close>, \<^verbatim>\<open>properties\<close>) or a pipeline
  (\<^verbatim>\<open>id\<close>, \<^verbatim>\<open>label\<close>, \<^verbatim>\<open>stages\<close>). A body of another shape is
  outside these types.
\<close>

record stage =
  stage_id :: string
  stage_label :: string
  displayOrder :: int

record json_entry =
  toObjectId :: "string option"
  entry_id :: "string option"
  entry_properties :: "props option"
  entry_label :: "string option"
  entry_stages :: "stage list option"

record json_body =
  json_message :: "string option"
  json_id :: "string option"
  json_properties :: "props option"
  json_results :: "json_entry list option"

text \<open>
  \<open>Rejected m\<close>: \<^verbatim>\<open>fetch\<close> rejects, and the handler's message is \<open>m\<close>.
  \<open>Replied st (Inl m)\<close>: a reply of status \<open>st\<close> whose \<^verbatim>\<open>json()\<close>
  rejects with message \<open>m\<close>. \<open>Replied st (Inr b)\<close>: a reply with body \<open>b\<close>.
\<close>

datatype response = Rejected string | Replied nat "string + json_body"

definition res_ok :: "nat \<Rightarrow> bool" where
  "res_ok st = (200 \<le> st \<and> st \<le> 299)"

text \<open>
  The five kinds of engagement, and the array that \<^verbatim>\<open>getContactActivitySummary\<close>
  sorts: its elements are \<^verbatim>\<open>{ type, createdAt }\<close>.
\<close>

datatype EngagementType = Calls | Emails | Notes | Tasks | Meetings

type_synonym timeline = "(EngagementType \<times> string option) list"

text \<open>
  The remote system is a state machine \<open>net\<close> on a state of any type \<open>'w\<close>.
  \<^verbatim>\<open>JSON.stringify\<close> on a body and \<^verbatim>\<open>new Date(s).getTime()\<close> are
  parameters as well; \<open>None\<close> of the latter is \<^verbatim>\<open>NaN\<close>. So is
  \<^verbatim>\<open>Array.prototype.sort\<close>, which takes the comparator, whose answer may be
  \<^verbatim>\<open>NaN\<close>, and the array: what the standard asks of it is \<open>conforming\<close> below,
  and the order it gives for a comparator that is not consistent is the engine's own.
\<close>

record 'w runtime =
  env :: "string \<Rightarrow> string option"
  net :: "'w \<Rightarrow> request \<Rightarrow> response \<times> 'w"
  JSON_stringify :: "json_body \<Rightarrow> string"
  Date_getTime :: "string \<Rightarrow> int option"
  Array_sort ::
    "(EngagementType \<times> string option \<Rightarrow> EngagementType \<times> string option \<Rightarrow> int option)
     \<Rightarrow> timeline \<Rightarrow> timeline"

record 'w io =
  world :: 'w
  trace :: "request list"

definition fetch :: "'w runtime \<Rightarrow> request \<Rightarrow> 'w io \<Rightarrow> response \<times> 'w io" where
  "fetch rt req s =
     (case net rt (world s) req of
        (res, w') \<Rightarrow> (res, \<lparr>world = w', trace = trace s @ [req]\<rparr>))"

definition TOKEN :: "'w runtime \<Rightarrow> string option" where
  "TOKEN rt = env rt ''HUBSPOT_PRIVATE_APP_TOKEN''"

definition HUBSPOT_BASE :: "'w runtime \<Rightarrow> string" where
  "HUBSPOT_BASE rt =
     strip_trailing_slashes (or_default (env rt ''HUBSPOT_API_BASE_URL'') ''https://api.hubapi.com'')"

definition error_message :: "'w runtime \<Rightarrow> json_body \<Rightarrow> string" where
  \<comment> \<open>\<^verbatim>\<open>body?.message ?? JSON.stringify(body)\<close>\<close>
  "error_message rt b = (case json_message b of Some m \<Rightarrow> m | None \<Rightarrow> JSON_stringify rt b)"

section \<open>Engagements\<close>

fun type_name :: "EngagementType \<Rightarrow> string" where
  "type_name Calls = ''calls''"
| "type_name Emails = ''emails''"
| "type_name Notes = ''notes''"
| "type_name Tasks = ''tasks''"
| "type_name Meetings = ''meetings''"

record EngagementInfo =
  info_id :: string
  createdAt :: "string option"
  subject :: "string option"
  body :: "string option"
  info_status :: "string option"
  direction :: "string option"

record EngagementSummary =
  etype :: EngagementType
  count :: nat
  items :: "EngagementInfo list"

record ActivitySummary =
  calls :: EngagementSummary
  emails :: EngagementSummary
  "notes" :: EngagementSummary
  tasks :: EngagementSummary
  meetings :: EngagementSummary
  totalEngagements :: nat
  recentActivity :: string

text \<open>The result envelope: \<open>ok\<close> and the fields a tool may set.\<close>

record envelope =
  ok :: bool
  ident :: "string option"
  properties :: "props option"
  error :: "string option"
  status :: "nat option"
  contactId :: "string option"
  contact :: "json_entry option"
  deal :: "json_body option"
  pipelines :: "json_entry list option"
  alreadyExists :: "bool option"
  message :: "string option"
  chatSummary :: "string option"
  previousDeal :: "json_body option"
  contactName :: "string option"
  email :: "string option"
  summary :: "ActivitySummary option"

definition result :: "bool \<Rightarrow> envelope" where
  \<comment> \<open>\<^verbatim>\<open>{ ok }\<close>, every other field unset\<close>
  "result b =
     \<lparr>ok = b, ident = None, properties = None, error = None, status = None,
      contactId = None, contact = None, deal = None, pipelines = None,
      alreadyExists = None, message = None, chatSummary = None, previousDeal = None,
      contactName = None, email = None, summary = None\<rparr>"

definition failure :: "string \<Rightarrow> envelope" where
  \<comment> \<open>\<^verbatim>\<open>{ ok: false, error }\<close>\<close>
  "failure e = (result False)\<lparr>error := Some e\<rparr>"

definition missing_token :: string where
  "missing_token = ''Missing HUBSPOT_PRIVATE_APP_TOKEN in environment.''"

definition associationsRequest :: "string \<Rightarrow> EngagementType \<Rightarrow> string \<Rightarrow> string \<Rightarrow> request" where
  "associationsRequest cid engagementType token baseUrl =
     \<lparr>verb = GET,
      url = baseUrl @ ''/crm/v4/objects/contacts/'' @ cid @ ''/associations/''
            @ type_name engagementType,
      bearer = token, content = None\<rparr>"

definition getContactAssociations ::
  "'w runtime \<Rightarrow> string \<Rightarrow> EngagementType \<Rightarrow> string \<Rightarrow> string \<Rightarrow> 'w io \<Rightarrow> string list \<times> 'w io"
where
  "getContactAssociations rt cid engagementType token baseUrl s =
     (case fetch rt (associationsRequest cid engagementType token baseUrl) s of
        (Rejected m, s') \<Rightarrow> ([], s')
      | (Replied st b, s') \<Rightarrow>
          if \<not> res_ok st then ([], s')
          else (case b of
                  Inl m \<Rightarrow> ([], s')
                | Inr bd \<Rightarrow>
                    (filter (\<lambda>i. i \<noteq> [])
                       (map (\<lambda>r. case toObjectId r of None \<Rightarrow> [] | Some i \<Rightarrow> i)
                          (case json_results bd of None \<Rightarrow> [] | Some rs \<Rightarrow> rs)),
                     s')))"

fun getPropertiesForType :: "EngagementType \<Rightarrow> string list" where
  "getPropertiesForType Calls =
     [''hs_call_title'', ''hs_call_body'', ''hs_call_status'', ''hs_call_direction'', ''hs_createdate'']"
| "getPropertiesForType Emails =
     [''hs_email_subject'', ''hs_email_text'', ''hs_email_status'', ''hs_email_direction'', ''hs_createdate'']"
| "getPropertiesForType Notes = [''hs_note_body'', ''hs_createdate'']"
| "getPropertiesForType Tasks =
     [''hs_task_subject'', ''hs_task_body'', ''hs_task_status'', ''hs_createdate'']"
| "getPropertiesForType Meetings =
     [''hs_meeting_title'', ''hs_meeting_body'', ''hs_meeting_outcome'', ''hs_createdate'']"

fun join :: "string \<Rightarrow> string list \<Rightarrow> string" where
  \<comment> \<open>\<^verbatim>\<open>xs.join(sep)\<close>\<close>
  "join sep [] = []"
| "join sep [x] = x"
| "join sep (x # y # ys) = x @ sep @ join sep (y # ys)"

definition detailsRequest :: "EngagementType \<Rightarrow> string \<Rightarrow> string \<Rightarrow> string \<Rightarrow> request" where
  "detailsRequest engagementType engagementId token baseUrl =
     \<lparr>verb = GET,
      url = baseUrl @ ''/crm/v3/objects/'' @ type_name engagementType @ ''/'' @ engagementId
            @ ''?properties='' @ join '','' (getPropertiesForType engagementType),
      bearer = token, content = None\<rparr>"

definition getEngagementDetails ::
  "'w runtime \<Rightarrow> EngagementType \<Rightarrow> string \<Rightarrow> string \<Rightarrow> string \<Rightarrow> 'w io \<Rightarrow> json_body option \<times> 'w io"
where
  "getEngagementDetails rt engagementType engagementId token baseUrl s =
     (case fetch rt (detailsRequest engagementType engagementId token baseUrl) s of
        (Rejected m, s') \<Rightarrow> (None, s')
      | (Replied st b, s') \<Rightarrow>
          if \<not> res_ok st then (None, s')
          else (case b of Inl m \<Rightarrow> (None, s') | Inr bd \<Rightarrow> (Some bd, s')))"

definition get_prop :: "props \<Rightarrow> string \<Rightarrow> string option" where
  \<comment> \<open>\<^verbatim>\<open>props.name\<close>\<close>
  "get_prop ps name = map_of ps name"

definition extractEngagementInfo :: "EngagementType \<Rightarrow> json_body \<Rightarrow> EngagementInfo" where
  "extractEngagementInfo ty data =
     (let ps = (case json_properties data of None \<Rightarrow> [] | Some p \<Rightarrow> p);
          i = (case json_id data of None \<Rightarrow> [] | Some x \<Rightarrow> x)
      in case ty of
           Calls \<Rightarrow>
             \<lparr>info_id = i, createdAt = get_prop ps ''hs_createdate'',
              subject = get_prop ps ''hs_call_title'', body = get_prop ps ''hs_call_body'',
              info_status = get_prop ps ''hs_call_status'', direction = get_prop ps ''hs_call_direction''\<rparr>
         | Emails \<Rightarrow>
             \<lparr>info_id = i, createdAt = get_prop ps ''hs_createdate'',
              subject = get_prop ps ''hs_email_subject'', body = get_prop ps ''hs_email_text'',
              info_status = get_prop ps ''hs_email_status'', direction = get_prop ps ''hs_email_direction''\<rparr>
         | Notes \<Rightarrow>
             \<lparr>info_id = i, createdAt = get_prop ps ''hs_createdate'',
              subject = None, body = get_prop ps ''hs_note_body'',
              info_status = None, direction = None\<rparr>
         | Tasks \<Rightarrow>
             \<lparr>info_id = i, createdAt = get_prop ps ''hs_createdate'',
              subject = get_prop ps ''hs_task_subject'', body = get_prop ps ''hs_task_body'',
              info_status = get_prop ps ''hs_task_status'', direction = None\<rparr>
         | Meetings \<Rightarrow>
             \<lparr>info_id = i, createdAt = get_prop ps ''hs_createdate'',
              subject = get_prop ps ''hs_meeting_title'', body = get_prop ps ''hs_meeting_body'',
              info_status = get_prop ps ''hs_meeting_outcome'', direction = None\<rparr>)"


subsection \<open>The activity summary\<close>

type_synonym summaries = "EngagementType \<Rightarrow> EngagementSummary"

definition engagementTypes :: "EngagementType list" where
  "engagementTypes = [Calls, Emails, Notes, Tasks, Meetings]"

definition initialSummaries :: summaries where
  "initialSummaries t = \<lparr>etype = t, count = 0, items = []\<rparr>"

text \<open>
  The inner loop, over the sampled identifiers of one type: a hit is normalised and
  pushed to that type's items and to \<^verbatim>\<open>allItems\<close>; a miss is skipped.
\<close>

fun detailsLoop ::
  "'w runtime \<Rightarrow> EngagementType \<Rightarrow> string \<Rightarrow> string \<Rightarrow> string list
   \<Rightarrow> summaries \<times> timeline \<times> 'w io \<Rightarrow> summaries \<times> timeline \<times> 'w io"
where
  "detailsLoop rt engType token baseUrl [] acc = acc"
| "detailsLoop rt engType token baseUrl (engId # recentIds) (sums, allItems, s) =
     (case getEngagementDetails rt engType engId token baseUrl s of
        (None, s') \<Rightarrow> detailsLoop rt engType token baseUrl recentIds (sums, allItems, s')
      | (Some details, s') \<Rightarrow>
          (let info = extractEngagementInfo engType details
           in detailsLoop rt engType token baseUrl recentIds
                (sums(engType := (sums engType)\<lparr>items := items (sums engType) @ [info]\<rparr>),
                 allItems @ [(engType, createdAt info)],
                 s')))"

text \<open>
  The body of the outer loop, for one engagement type: the associations, the details of
  the first five, and the count.
\<close>

definition processType ::
  "'w runtime \<Rightarrow> string \<Rightarrow> string \<Rightarrow> string \<Rightarrow> EngagementType
   \<Rightarrow> summaries \<times> timeline \<times> 'w io \<Rightarrow> summaries \<times> timeline \<times> 'w io"
where
  "processType rt cid token baseUrl engType acc =
     (case acc of
        (sums, allItems, s) \<Rightarrow>
          (case getContactAssociations rt cid engType token baseUrl s of
             (associationIds, s1) \<Rightarrow>
               (case detailsLoop rt engType token baseUrl (take 5 associationIds)
                       (sums, allItems, s1) of
                  (sums', allItems', s2) \<Rightarrow>
                    (sums'(engType := (sums' engType)\<lparr>count := length associationIds\<rparr>),
                     allItems', s2))))"

fun typesLoop ::
  "'w runtime \<Rightarrow> string \<Rightarrow> string \<Rightarrow> string \<Rightarrow> EngagementType list
   \<Rightarrow> summaries \<times> timeline \<times> 'w io \<Rightarrow> summaries \<times> timeline \<times> 'w io"
where
  "typesLoop rt cid token baseUrl [] acc = acc"
| "typesLoop rt cid token baseUrl (engType # rest) acc =
     typesLoop rt cid token baseUrl rest (processType rt cid token baseUrl engType acc)"

text \<open>
  The comparator of the sort. \<open>timeOf\<close> is
  \<^verbatim>\<open>a.createdAt ? new Date(a.createdAt).getTime() : 0\<close>; the difference of two
  times is \<^verbatim>\<open>NaN\<close> (\<open>None\<close>) when one of them is.
\<close>

definition timeOf :: "'w runtime \<Rightarrow> string option \<Rightarrow> int option" where
  "timeOf rt c =
     (case c of None \<Rightarrow> Some 0 | Some d \<Rightarrow> if d = [] then Some 0 else Date_getTime rt d)"

definition compareFn ::
  "'w runtime \<Rightarrow> EngagementType \<times> string option \<Rightarrow> EngagementType \<times> string option \<Rightarrow> int option"
where
  "compareFn rt a b =
     (case timeOf rt (snd a) of
        None \<Rightarrow> None
      | Some dateA \<Rightarrow> (case timeOf rt (snd b) of None \<Rightarrow> None | Some dateB \<Rightarrow> Some (dateB - dateA)))"

text \<open>
  What the standard asks of \<^verbatim>\<open>Array.prototype.sort\<close>. A comparator is consistent
  for the values of an array when on them it never answers \<^verbatim>\<open>NaN\<close>, its equality
  is an equivalence and its order is transitive and antisymmetric. For a consistent
  comparator the result is fixed: the one arrangement of the array that is in the
  comparator's order and keeps the elements that compare equal in the order they had
  (\<open>stable_sort\<close>, computed by insertion). For any other comparator the sort reads each
  \<^verbatim>\<open>NaN\<close> as \<open>+0\<close> (\<open>SortCompare\<close>) and the result is an arrangement of the array
  in an order of the engine's choice.
\<close>

definition SortCompare :: "('a \<Rightarrow> 'a \<Rightarrow> int option) \<Rightarrow> 'a \<Rightarrow> 'a \<Rightarrow> int" where
  "SortCompare comparefn a b = (case comparefn a b of None \<Rightarrow> 0 | Some v \<Rightarrow> v)"

definition consistent :: "('a \<Rightarrow> 'a \<Rightarrow> int option) \<Rightarrow> 'a list \<Rightarrow> bool" where
  "consistent comparefn xs =
     (let cmp = SortCompare comparefn
      in \<forall>a \<in> set xs. \<forall>b \<in> set xs. \<forall>c \<in> set xs.
           comparefn a b \<noteq> None
           \<and> cmp a a = 0
           \<and> (cmp a b = 0 \<longrightarrow> cmp b a = 0)
           \<and> (cmp a b = 0 \<and> cmp b c = 0 \<longrightarrow> cmp a c = 0)
           \<and> (cmp a b < 0 \<longrightarrow> cmp b a > 0)
           \<and> (cmp a b > 0 \<longrightarrow> cmp b a < 0)
           \<and> (cmp a b < 0 \<and> cmp b c < 0 \<longrightarrow> cmp a c < 0)
           \<and> (cmp a b > 0 \<and> cmp b c > 0 \<longrightarrow> cmp a c > 0))"

fun insert_by :: "('a \<Rightarrow> 'a \<Rightarrow> int) \<Rightarrow> 'a \<Rightarrow> 'a list \<Rightarrow> 'a list" where
  "insert_by cmp x [] = [x]"
| "insert_by cmp x (y # ys) = (if cmp x y \<le> 0 then x # y # ys else y # insert_by cmp x ys)"

definition stable_sort :: "('a \<Rightarrow> 'a \<Rightarrow> int) \<Rightarrow> 'a list \<Rightarrow> 'a list" where
  "stable_sort cmp xs = foldr (insert_by cmp) xs []"

definition conforming :: "'w runtime \<Rightarrow> bool" where
  "conforming rt =
     (\<forall>comparefn xs.
        mset (Array_sort rt comparefn xs) = mset xs
        \<and> (consistent comparefn xs \<longrightarrow>
             Array_sort rt comparefn xs = stable_sort (SortCompare comparefn) xs))"

definition recentActivityOf :: "timeline \<Rightarrow> string" where
  "recentActivityOf allItems =
     (case allItems of
        [] \<Rightarrow> ''No recent activity found''
      | a # _ \<Rightarrow>
          ''Most recent: '' @ type_name (fst a) @ '' on ''
          @ (case snd a of None \<Rightarrow> ''unknown date'' | Some d \<Rightarrow> d))"

definition contactNameOf :: "json_body \<Rightarrow> string" where
  \<comment> \<open>\<^verbatim>\<open>[firstname, lastname].filter(Boolean).join(" ") || "Unknown"\<close>\<close>
  "contactNameOf contactData =
     (let ps = (case json_properties contactData of None \<Rightarrow> [] | Some p \<Rightarrow> p);
          parts = filter (\<lambda>x. x \<noteq> [])
                    (map (\<lambda>v. case v of None \<Rightarrow> [] | Some x \<Rightarrow> x)
                       [get_prop ps ''firstname'', get_prop ps ''lastname'']);
          joined = join '' '' parts
      in if joined = [] then ''Unknown'' else joined)"

definition contactRequest :: "string \<Rightarrow> string \<Rightarrow> string \<Rightarrow> request" where
  "contactRequest cid token baseUrl =
     \<lparr>verb = GET,
      url = baseUrl @ ''/crm/v3/objects/contacts/'' @ cid @ ''?properties=email,firstname,lastname'',
      bearer = token, content = None\<rparr>"

text \<open>
  The part of \<^verbatim>\<open>getContactActivitySummary\<close> after the contact is read: the two
  loops, the sort of \<^verbatim>\<open>allItems\<close> and the result.
\<close>

definition summarize ::
  "'w runtime \<Rightarrow> string \<Rightarrow> string \<Rightarrow> string \<Rightarrow> json_body \<Rightarrow> 'w io \<Rightarrow> envelope \<times> 'w io"
where
  "summarize rt cid token baseUrl contactData s1 =
     (case typesLoop rt cid token baseUrl engagementTypes (initialSummaries, [], s1) of
        (sums, allItems, s2) \<Rightarrow>
          (let sorted = Array_sort rt (compareFn rt) allItems;
               total = count (sums Calls) + count (sums Emails) + count (sums Notes)
                       + count (sums Tasks) + count (sums Meetings)
           in ((result True)
                 \<lparr>contactId := json_id contactData,
                  contactName := Some (contactNameOf contactData),
                  email := (case json_properties contactData of
                              None \<Rightarrow> None | Some p \<Rightarrow> get_prop p ''email''),
                  summary := Some
                    \<lparr>calls = sums Calls, emails = sums Emails, notes = sums Notes,
                     tasks = sums Tasks, meetings = sums Meetings,
                     totalEngagements = total,
                     recentActivity = recentActivityOf sorted\<rparr>\<rparr>,
               s2)))"

definition getContactActivitySummary :: "'w runtime \<Rightarrow> string \<Rightarrow> 'w io \<Rightarrow> envelope \<times> 'w io" where
  "getContactActivitySummary rt cid s =
     (case TOKEN rt of
        None \<Rightarrow> (failure missing_token, s)
      | Some token \<Rightarrow>
          if token = [] then (failure missing_token, s)
          else if cid = [] then (failure ''Contact ID is required.'', s)
          else
            (case fetch rt (contactRequest cid token (HUBSPOT_BASE rt)) s of
               (Rejected m, s1) \<Rightarrow> (failure m, s1)
             | (Replied st b, s1) \<Rightarrow>
                 if \<not> res_ok st
                 then (case b of
                         Inl m \<Rightarrow> (failure m, s1)
                       | Inr errorBody \<Rightarrow>
                           (failure (case json_message errorBody of
                                       None \<Rightarrow> ''Contact not found'' | Some m \<Rightarrow> m), s1))
                 else (case b of
                         Inl m \<Rightarrow> (failure m, s1)
                       | Inr contactData \<Rightarrow>
                           summarize rt cid token (HUBSPOT_BASE rt) contactData s1)))"


subsection \<open>Search by email\<close>

definition searchRequest :: "string \<Rightarrow> string \<Rightarrow> string \<Rightarrow> request" where
  "searchRequest em token baseUrl =
     \<lparr>verb = POST, url = baseUrl @ ''/crm/v3/objects/contacts/search'', bearer = token,
      content = Some (Search ''email'' ''EQ'' em
                        [''email'', ''firstname'', ''lastname'', ''phone'', ''company''])\<rparr>"

definition searchContactByEmail :: "'w runtime \<Rightarrow> string \<Rightarrow> 'w io \<Rightarrow> envelope \<times> 'w io" where
  "searchContactByEmail rt em s =
     (case TOKEN rt of
        None \<Rightarrow> (failure missing_token, s)
      | Some token \<Rightarrow>
          if token = [] then (failure missing_token, s)
          else
            (case fetch rt (searchRequest em token (HUBSPOT_BASE rt)) s of
               (Rejected m, s') \<Rightarrow> (failure m, s')
             | (Replied st b, s') \<Rightarrow>
                 (case b of
                    Inl m \<Rightarrow> (failure m, s')
                  | Inr bd \<Rightarrow>
                      if \<not> res_ok st then (failure (error_message rt bd), s')
                      else (case json_results bd of
                              Some (r # rs) \<Rightarrow>
                                ((result True)\<lparr>contactId := entry_id r, contact := Some r\<rparr>, s')
                            | _ \<Rightarrow> (result True, s')))))"

section \<open>Contacts\<close>

record CreateContactInput =
  in_email :: "string option"
  in_firstname :: "string option"
  in_lastname :: "string option"
  in_phone :: "string option"
  in_company :: "string option"

record UpdateContactInput = CreateContactInput +
  in_contactId :: string

definition property :: "string \<Rightarrow> string option \<Rightarrow> props" where
  \<comment> \<open>\<^verbatim>\<open>if (input.name) properties.name = input.name\<close>\<close>
  "property name v = (case v of None \<Rightarrow> [] | Some x \<Rightarrow> if x = [] then [] else [(name, x)])"

definition contactProperties :: "'a CreateContactInput_scheme \<Rightarrow> props" where
  "contactProperties input =
     property ''email'' (in_email input) @ property ''firstname'' (in_firstname input)
     @ property ''lastname'' (in_lastname input) @ property ''phone'' (in_phone input)
     @ property ''company'' (in_company input)"

text \<open>
  The request and the reading of its reply that \<^verbatim>\<open>createContact\<close>,
  \<^verbatim>\<open>updateContact\<close> and \<^verbatim>\<open>updateDealStage\<close> share word for word.
\<close>

definition writeObject :: "'w runtime \<Rightarrow> request \<Rightarrow> 'w io \<Rightarrow> envelope \<times> 'w io" where
  "writeObject rt req s =
     (case fetch rt req s of
        (Rejected m, s') \<Rightarrow> (failure m, s')
      | (Replied st b, s') \<Rightarrow>
          (case b of
             Inl m \<Rightarrow> (failure m, s')
           | Inr bd \<Rightarrow>
               if \<not> res_ok st
               then ((failure (error_message rt bd))\<lparr>status := Some st\<rparr>, s')
               else ((result True)
                       \<lparr>ident := json_id bd,
                        properties := Some (case json_properties bd of
                                              None \<Rightarrow> [] | Some ps \<Rightarrow> ps)\<rparr>, s')))"

definition createContact :: "'w runtime \<Rightarrow> CreateContactInput \<Rightarrow> 'w io \<Rightarrow> envelope \<times> 'w io" where
  "createContact rt input s =
     (case TOKEN rt of
        None \<Rightarrow> (failure missing_token, s)
      | Some token \<Rightarrow>
          if token = [] then (failure missing_token, s)
          else if contactProperties input = [] then (failure ''No properties provided.'', s)
          else writeObject rt
                 \<lparr>verb = POST, url = HUBSPOT_BASE rt @ ''/crm/v3/objects/contacts'',
                  bearer = token, content = Some (Properties (contactProperties input))\<rparr> s)"

definition updateContact :: "'w runtime \<Rightarrow> UpdateContactInput \<Rightarrow> 'w io \<Rightarrow> envelope \<times> 'w io" where
  "updateContact rt input s =
     (case TOKEN rt of
        None \<Rightarrow> (failure missing_token, s)
      | Some token \<Rightarrow>
          if token = [] then (failure missing_token, s)
          else if in_contactId input = [] then (failure ''Contact ID is required.'', s)
          else if contactProperties input = []
          then (failure ''No properties to update provided.'', s)
          else writeObject rt
                 \<lparr>verb = PATCH,
                  url = HUBSPOT_BASE rt @ ''/crm/v3/objects/contacts/'' @ in_contactId input,
                  bearer = token, content = Some (Properties (contactProperties input))\<rparr> s)"

section \<open>Deals\<close>

record UpdateDealStageInput =
  in_dealId :: string
  in_dealstage :: string
  in_notes :: "string option"

definition patchDealRequest :: "string \<Rightarrow> string \<Rightarrow> string \<Rightarrow> string \<Rightarrow> request" where
  "patchDealRequest dealId dealstage token baseUrl =
     \<lparr>verb = PATCH, url = baseUrl @ ''/crm/v3/objects/deals/'' @ dealId, bearer = token,
      content = Some (Properties [(''dealstage'', dealstage)])\<rparr>"

definition updateDealStage :: "'w runtime \<Rightarrow> UpdateDealStageInput \<Rightarrow> 'w io \<Rightarrow> envelope \<times> 'w io" where
  "updateDealStage rt input s =
     (case TOKEN rt of
        None \<Rightarrow> (failure missing_token, s)
      | Some token \<Rightarrow>
          if token = [] then (failure missing_token, s)
          else if in_dealId input = [] then (failure ''Deal ID is required.'', s)
          else if in_dealstage input = [] then (failure ''Deal stage is required.'', s)
          else writeObject rt
                 (patchDealRequest (in_dealId input) (in_dealstage input) token (HUBSPOT_BASE rt)) s)"

definition getDealPipelines :: "'w runtime \<Rightarrow> 'w io \<Rightarrow> envelope \<times> 'w io" where
  "getDealPipelines rt s =
     (case TOKEN rt of
        None \<Rightarrow> (failure missing_token, s)
      | Some token \<Rightarrow>
          if token = [] then (failure missing_token, s)
          else
            (case fetch rt
                    \<lparr>verb = GET, url = HUBSPOT_BASE rt @ ''/crm/v3/pipelines/deals'',
                     bearer = token, content = None\<rparr> s of
               (Rejected m, s') \<Rightarrow> (failure m, s')
             | (Replied st b, s') \<Rightarrow>
                 (case b of
                    Inl m \<Rightarrow> (failure m, s')
                  | Inr bd \<Rightarrow>
                      if \<not> res_ok st then (failure (error_message rt bd), s')
                      else ((result True)
                              \<lparr>pipelines := Some (case json_results bd of
                                                    None \<Rightarrow> [] | Some rs \<Rightarrow> rs)\<rparr>, s'))))"

definition dealRequest :: "string \<Rightarrow> string \<Rightarrow> string \<Rightarrow> request" where
  "dealRequest dealId token baseUrl =
     \<lparr>verb = GET,
      url = baseUrl @ ''/crm/v3/objects/deals/'' @ dealId
            @ ''?properties=dealname,dealstage,amount,closedate,pipeline'',
      bearer = token, content = None\<rparr>"

text \<open>The lookup of a deal, after the token is read: the body of the \<^verbatim>\<open>try\<close>.\<close>

definition lookupDeal :: "'w runtime \<Rightarrow> string \<Rightarrow> string \<Rightarrow> string \<Rightarrow> 'w io \<Rightarrow> envelope \<times> 'w io" where
  "lookupDeal rt dealId token baseUrl s =
     (case fetch rt (dealRequest dealId token baseUrl) s of
        (Rejected m, s') \<Rightarrow> (failure m, s')
      | (Replied st b, s') \<Rightarrow>
          (case b of
             Inl m \<Rightarrow> (failure m, s')
           | Inr bd \<Rightarrow>
               if \<not> res_ok st then (failure (error_message rt bd), s')
               else ((result True)\<lparr>deal := Some bd\<rparr>, s')))"

definition getDealById :: "'w runtime \<Rightarrow> string \<Rightarrow> 'w io \<Rightarrow> envelope \<times> 'w io" where
  "getDealById rt dealId s =
     (case TOKEN rt of
        None \<Rightarrow> (failure missing_token, s)
      | Some token \<Rightarrow>
          if token = [] then (failure missing_token, s)
          else lookupDeal rt dealId token (HUBSPOT_BASE rt) s)"


section \<open>Tools of the skill\<close>

text \<open>
  The \<^verbatim>\<open>execute\<close> methods of \<^verbatim>\<open>hubspotCRM.skill.ts\<close>, on the input that the
  schema has parsed. The schema of the chat tool demands an email, so \<open>chat_email\<close> is
  not optional.
\<close>

record ChatInput =
  chat_email :: string
  chat_firstname :: "string option"
  chat_lastname :: "string option"
  chat_phone :: "string option"
  chat_company :: "string option"
  chat_summary :: "string option"

definition CreateContactFromChatTool_execute ::
  "'w runtime \<Rightarrow> ChatInput \<Rightarrow> 'w io \<Rightarrow> envelope \<times> 'w io"
where
  "CreateContactFromChatTool_execute rt parsed s =
     (case searchContactByEmail rt (chat_email parsed) s of
        (existingContact, s1) \<Rightarrow>
          if ok existingContact \<and> truthy (contactId existingContact)
          then ((result True)
                  \<lparr>alreadyExists := Some True,
                   contactId := contactId existingContact,
                   message := Some (''Contact with email '' @ chat_email parsed
                                     @ '' already exists in HubSpot''),
                   contact := contact existingContact\<rparr>, s1)
          else
            (case createContact rt
                    \<lparr>in_email = Some (chat_email parsed), in_firstname = chat_firstname parsed,
                     in_lastname = chat_lastname parsed, in_phone = chat_phone parsed,
                     in_company = chat_company parsed\<rparr> s1 of
               (res, s2) \<Rightarrow>
                 if ok res
                 then (res\<lparr>alreadyExists := Some False,
                           message := Some (''Successfully created new contact from chat: ''
                                             @ chat_email parsed),
                           chatSummary := chat_summary parsed\<rparr>, s2)
                 else (res, s2)))"

definition shown :: "string option \<Rightarrow> string" where
  \<comment> \<open>an optional string inside a template literal\<close>
  "shown v = (case v of None \<Rightarrow> ''undefined'' | Some x \<Rightarrow> x)"

definition UpdateDealStageTool_execute ::
  "'w runtime \<Rightarrow> UpdateDealStageInput \<Rightarrow> 'w io \<Rightarrow> envelope \<times> 'w io"
where
  "UpdateDealStageTool_execute rt parsed s =
     (case getDealById rt (in_dealId parsed) s of
        (currentDeal, s1) \<Rightarrow>
          if \<not> ok currentDeal
          then (failure (''Could not find deal with ID '' @ in_dealId parsed @ '': ''
                         @ shown (error currentDeal)), s1)
          else
            (case updateDealStage rt
                    \<lparr>in_dealId = in_dealId parsed, in_dealstage = in_dealstage parsed,
                     in_notes = in_notes parsed\<rparr> s1 of
               (res, s2) \<Rightarrow>
                 if ok res
                 then (res\<lparr>message := Some (''Successfully updated deal stage to '' @ [CHR 0x27]
                                             @ in_dealstage parsed @ [CHR 0x27]),
                           previousDeal := deal currentDeal\<rparr>, s2)
                 else (res, s2)))"

section \<open>The tools as single files\<close>

text \<open>
  \<^verbatim>\<open>updateDealStage.tool.ts\<close>: the token is read first, the lookup of the deal is
  \<open>lookupDeal\<close>, and the \<^verbatim>\<open>PATCH\<close> is written out in \<^verbatim>\<open>execute\<close>.
\<close>

definition tool_UpdateDealStage_execute ::
  "'w runtime \<Rightarrow> UpdateDealStageInput \<Rightarrow> 'w io \<Rightarrow> envelope \<times> 'w io"
where
  "tool_UpdateDealStage_execute rt parsed s =
     (case TOKEN rt of
        None \<Rightarrow> (failure missing_token, s)
      | Some token \<Rightarrow>
          if token = [] then (failure missing_token, s)
          else
            (case lookupDeal rt (in_dealId parsed) token (HUBSPOT_BASE rt) s of
               (currentDeal, s1) \<Rightarrow>
                 if \<not> ok currentDeal
                 then (failure (''Could not find deal with ID '' @ in_dealId parsed @ '': ''
                                @ shown (error currentDeal)), s1)
                 else
                   (case fetch rt
                           (patchDealRequest (in_dealId parsed) (in_dealstage parsed) token
                              (HUBSPOT_BASE rt)) s1 of
                      (Rejected m, s2) \<Rightarrow> (failure m, s2)
                    | (Replied st b, s2) \<Rightarrow>
                        (case b of
                           Inl m \<Rightarrow> (failure m, s2)
                         | Inr bd \<Rightarrow>
                             if \<not> res_ok st
                             then ((failure (error_message rt bd))\<lparr>status := Some st\<rparr>, s2)
                             else ((result True)
                                     \<lparr>ident := json_id bd,
                                      properties := Some (case json_properties bd of
                                                            None \<Rightarrow> [] | Some ps \<Rightarrow> ps),
                                      message := Some (''Successfully updated deal stage to ''
                                                        @ [CHR 0x27] @ in_dealstage parsed
                                                        @ [CHR 0x27]),
                                      previousDeal := deal currentDeal\<rparr>, s2)))))"

text \<open>
  \<^verbatim>\<open>createContactFromChat.tool.ts\<close>: its own search, which answers
  \<^verbatim>\<open>ok: true\<close> for every reply that parses, and its own create.
\<close>

definition tool_searchContactByEmail ::
  "'w runtime \<Rightarrow> string \<Rightarrow> string \<Rightarrow> string \<Rightarrow> 'w io \<Rightarrow> envelope \<times> 'w io"
where
  "tool_searchContactByEmail rt em token baseUrl s =
     (case fetch rt (searchRequest em token baseUrl) s of
        (Rejected m, s') \<Rightarrow> (failure m, s')
      | (Replied st b, s') \<Rightarrow>
          (case b of
             Inl m \<Rightarrow> (failure m, s')
           | Inr bd \<Rightarrow>
               if res_ok st
               then (case json_results bd of
                       Some (r # rs) \<Rightarrow>
                         ((result True)\<lparr>contactId := entry_id r, contact := Some r\<rparr>, s')
                     | _ \<Rightarrow> (result True, s'))
               else (result True, s')))"

definition tool_createContact ::
  "'w runtime \<Rightarrow> props \<Rightarrow> string \<Rightarrow> string \<Rightarrow> 'w io \<Rightarrow> envelope \<times> 'w io"
where
  "tool_createContact rt props token baseUrl s =
     (case fetch rt
             \<lparr>verb = POST, url = baseUrl @ ''/crm/v3/objects/contacts'', bearer = token,
              content = Some (Properties props)\<rparr> s of
        (Rejected m, s') \<Rightarrow> (failure m, s')
      | (Replied st b, s') \<Rightarrow>
          (case b of
             Inl m \<Rightarrow> (failure m, s')
           | Inr bd \<Rightarrow>
               if \<not> res_ok st then (failure (error_message rt bd), s')
               else ((result True)
                       \<lparr>ident := json_id bd,
                        properties := Some (case json_properties bd of
                                              None \<Rightarrow> [] | Some ps \<Rightarrow> ps)\<rparr>, s')))"

definition tool_CreateContactFromChat_execute ::
  "'w runtime \<Rightarrow> ChatInput \<Rightarrow> 'w io \<Rightarrow> envelope \<times> 'w io"
where
  "tool_CreateContactFromChat_execute rt parsed s =
     (case TOKEN rt of
        None \<Rightarrow> (failure missing_token, s)
      | Some token \<Rightarrow>
          if token = [] then (failure missing_token, s)
          else
            (case tool_searchContactByEmail rt (chat_email parsed) token (HUBSPOT_BASE rt) s of
               (existingContact, s1) \<Rightarrow>
                 if ok existingContact \<and> truthy (contactId existingContact)
                 then ((result True)
                         \<lparr>alreadyExists := Some True,
                          contactId := contactId existingContact,
                          message := Some (''Contact with email '' @ chat_email parsed
                                            @ '' already exists in HubSpot''),
                          contact := contact existingContact\<rparr>, s1)
                 else
                   (case tool_createContact rt
                           ((''email'', chat_email parsed)
                            # property ''firstname'' (chat_firstname parsed)
                            @ property ''lastname'' (chat_lastname parsed)
                            @ property ''phone'' (chat_phone parsed)
                            @ property ''company'' (chat_company parsed))
                           token (HUBSPOT_BASE rt) s1 of
                      (res, s2) \<Rightarrow>
                        if ok res
                        then (res\<lparr>alreadyExists := Some False,
                                  message := Some (''Successfully created new contact from chat: ''
                                                    @ chat_email parsed),
                                  chatSummary := chat_summary parsed\<rparr>, s2)
                        else (res, s2))))"


section \<open>The text of an activity summary\<close>

definition digit :: "nat \<Rightarrow> char" where
  "digit d = char_of (48 + d)"

fun show_nat :: "nat \<Rightarrow> string" where
  "show_nat n = (if n < 10 then [digit n] else show_nat (n div 10) @ [digit (n mod 10)])"

declare show_nat.simps [simp del]

definition itemLine :: "string \<Rightarrow> EngagementInfo \<Rightarrow> string" where
  \<comment> \<open>a call, an email or a meeting\<close>
  "itemLine dflt x =
     ''- '' @ or_default (subject x) dflt @ '' ('' @ or_default (createdAt x) ''unknown date'' @ '')''"

definition taskLine :: "EngagementInfo \<Rightarrow> string" where
  "taskLine x =
     ''- '' @ or_default (subject x) ''Task'' @ '' - '' @ or_default (info_status x) ''unknown status''"

definition noteLine :: "EngagementInfo \<Rightarrow> string" where
  "noteLine x =
     (let preview = or_default (map_option (take 100) (body x)) ''No content''
      in ''- '' @ preview
         @ (case body x of
              None \<Rightarrow> []
            | Some b \<Rightarrow> if b \<noteq> [] \<and> length b > 100 then ''...'' else []))"

definition generateActivitySummaryText :: "envelope \<Rightarrow> string" where
  "generateActivitySummaryText r =
     (case summary r of
        None \<Rightarrow> ''No activity summary available''
      | Some sm \<Rightarrow>
          (let lines0 =
                 [''## Activity Summary for '' @ or_default (contactName r) ''Unknown''
                    @ '' ('' @ or_default (email r) ''no email'' @ '')'',
                  [],
                  ''**Total Engagements:** '' @ show_nat (totalEngagements sm),
                  ''**'' @ recentActivity sm @ ''**'',
                  []];
               lines1 =
                 (if count (calls sm) > 0
                  then lines0 @ [''### Calls ('' @ show_nat (count (calls sm)) @ '' total)'']
                       @ map (itemLine ''Call'') (take 3 (items (calls sm))) @ [[]]
                  else lines0);
               lines2 =
                 (if count (emails sm) > 0
                  then lines1 @ [''### Emails ('' @ show_nat (count (emails sm)) @ '' total)'']
                       @ map (itemLine ''Email'') (take 3 (items (emails sm))) @ [[]]
                  else lines1);
               lines3 =
                 (if count (meetings sm) > 0
                  then lines2 @ [''### Meetings ('' @ show_nat (count (meetings sm)) @ '' total)'']
                       @ map (itemLine ''Meeting'') (take 3 (items (meetings sm))) @ [[]]
                  else lines2);
               lines4 =
                 (if count (tasks sm) > 0
                  then lines3 @ [''### Tasks ('' @ show_nat (count (tasks sm)) @ '' total)'']
                       @ map taskLine (take 3 (items (tasks sm))) @ [[]]
                  else lines3);
               lines5 =
                 (if count (notes sm) > 0
                  then lines4 @ [''### Notes ('' @ show_nat (count (notes sm)) @ '' total)'']
                       @ map noteLine (take 2 (items (notes sm)))
                  else lines4)
           in join [CHR 0x0A] lines5))"

section \<open>Vocabulary of the properties\<close>

text \<open>
  The items that the inner loop pushes for one type, and the state it leaves, as a
  function of the identifiers and the state alone.
\<close>

fun fetchedDetails ::
  "'w runtime \<Rightarrow> EngagementType \<Rightarrow> string \<Rightarrow> string \<Rightarrow> string list \<Rightarrow> 'w io
   \<Rightarrow> EngagementInfo list \<times> 'w io"
where
  "fetchedDetails rt engType token baseUrl [] s = ([], s)"
| "fetchedDetails rt engType token baseUrl (engId # recentIds) s =
     (case getEngagementDetails rt engType engId token baseUrl s of
        (None, s') \<Rightarrow> fetchedDetails rt engType token baseUrl recentIds s'
      | (Some details, s') \<Rightarrow>
          (case fetchedDetails rt engType token baseUrl recentIds s' of
             (xs, s'') \<Rightarrow> (extractEngagementInfo engType details # xs, s'')))"

text \<open>
  \<open>typeStart rt cid token s k\<close> is the state in which a run of
  \<^verbatim>\<open>getContactActivitySummary\<close> started in \<open>s\<close> begins the work for type
  \<open>k\<close>: the contact has been read and the types before \<open>k\<close> are done.
  \<open>associationIds\<close> is the list of identifiers the run then receives for \<open>k\<close>, and
  \<open>typeResult rt cid token k s\<close> is the summary that the loop body for \<open>k\<close> alone
  yields from a state \<open>s\<close>.
\<close>

definition typeStart :: "'w runtime \<Rightarrow> string \<Rightarrow> string \<Rightarrow> 'w io \<Rightarrow> EngagementType \<Rightarrow> 'w io" where
  "typeStart rt cid token s k =
     snd (snd (typesLoop rt cid token (HUBSPOT_BASE rt)
                 (takeWhile (\<lambda>t. t \<noteq> k) engagementTypes)
                 (initialSummaries, [],
                  snd (fetch rt (contactRequest cid token (HUBSPOT_BASE rt)) s))))"

definition associationIds ::
  "'w runtime \<Rightarrow> string \<Rightarrow> string \<Rightarrow> 'w io \<Rightarrow> EngagementType \<Rightarrow> string list"
where
  "associationIds rt cid token s k =
     fst (getContactAssociations rt cid k token (HUBSPOT_BASE rt) (typeStart rt cid token s k))"

definition typeResult ::
  "'w runtime \<Rightarrow> string \<Rightarrow> string \<Rightarrow> EngagementType \<Rightarrow> 'w io \<Rightarrow> EngagementSummary"
where
  "typeResult rt cid token k s =
     fst (processType rt cid token (HUBSPOT_BASE rt) k (initialSummaries, [], s)) k"

definition entry :: "ActivitySummary \<Rightarrow> EngagementType \<Rightarrow> EngagementSummary" where
  "entry sm k =
     (case k of
        Calls \<Rightarrow> calls sm | Emails \<Rightarrow> emails sm | Notes \<Rightarrow> notes sm
      | Tasks \<Rightarrow> tasks sm | Meetings \<Rightarrow> meetings sm)"

definition failed_fetch :: "response \<Rightarrow> bool" where
  \<comment> \<open>a transport failure or a status that is not a success\<close>
  "failed_fetch res = (case res of Rejected m \<Rightarrow> True | Replied st b \<Rightarrow> \<not> res_ok st)"

definition issued :: "'w io \<Rightarrow> 'w io \<Rightarrow> request list" where
  \<comment> \<open>the requests made between two states\<close>
  "issued s s' = drop (length (trace s)) (trace s')"

text \<open>
  The merged list of a summary: the items of the five types in the order of the outer
  loop, each with its type. \<open>dated\<close> holds of an item whose \<^verbatim>\<open>createdAt\<close> is
  absent, empty or parses; \<open>timeKey\<close> is its time, 0 when absent or empty.
\<close>

definition mergedItems :: "ActivitySummary \<Rightarrow> timeline" where
  "mergedItems sm =
     concat (map (\<lambda>k. map (\<lambda>i. (k, createdAt i)) (items (entry sm k))) engagementTypes)"

definition dated :: "'w runtime \<Rightarrow> EngagementType \<times> string option \<Rightarrow> bool" where
  "dated rt a = (timeOf rt (snd a) \<noteq> None)"

definition timeKey :: "'w runtime \<Rightarrow> EngagementType \<times> string option \<Rightarrow> int" where
  "timeKey rt a = (case timeOf rt (snd a) of None \<Rightarrow> 0 | Some t \<Rightarrow> t)"

text \<open>
  A section of the text of a summary, in the words of the specification: nothing for a
  count of 0; otherwise a heading, a line for each of the first \<open>cap\<close> items, and a
  trailer.
\<close>

definition sectionOf ::
  "string \<Rightarrow> nat \<Rightarrow> (EngagementInfo \<Rightarrow> string) \<Rightarrow> EngagementSummary \<Rightarrow> string list \<Rightarrow> string list"
where
  \<comment> \<open>no section for a count of 0; else a heading, at most \<open>cap\<close> item lines, a trailer\<close>
  "sectionOf title cap line e trailer =
     (if count e = 0 then []
      else (''### '' @ title @ '' ('' @ show_nat (count e) @ '' total)'')
           # map line (take cap (items e)) @ trailer)"

section \<open>A concrete remote system\<close>

text \<open>
  A small remote system for the examples. Contact 7 has twelve calls (the details of the
  first five are served), no emails, one note, a tasks index that answers 404 and a
  meetings index that is down. Contact 8 has two calls, the first with a date that does
  not parse. Contact 9 has one call without a date. Contact 10 has nothing. Contact 11
  has two calls, the first without a date and the second from the last day of 1969.
  Deal 42 exists, deal 43 does not. The world counts the requests served. The times are
  those of \<^verbatim>\<open>Date.parse\<close>, in milliseconds. The sort is the stable insertion
  sort, reading \<^verbatim>\<open>NaN\<close> as \<open>+0\<close>; the one array here whose comparator answers
  \<^verbatim>\<open>NaN\<close> is that of contact 8, of two items, which compare as equal and stay as
  they are.
\<close>

definition demo_env :: "string \<Rightarrow> string option" where
  "demo_env name =
     (if name = ''HUBSPOT_PRIVATE_APP_TOKEN'' then Some ''tok''
      else if name = ''HUBSPOT_API_BASE_URL'' then Some ''https://crm.test/''
      else None)"

definition no_body :: json_body where
  "no_body = \<lparr>json_message = None, json_id = None, json_properties = None, json_results = None\<rparr>"

definition association :: "string \<Rightarrow> json_entry" where
  "association i =
     \<lparr>toObjectId = Some i, entry_id = None, entry_properties = None, entry_label = None,
      entry_stages = None\<rparr>"

definition object :: "string \<Rightarrow> props \<Rightarrow> json_body" where
  "object i ps = no_body\<lparr>json_id := Some i, json_properties := Some ps\<rparr>"

definition associations :: "string list \<Rightarrow> response" where
  "associations is = Replied 200 (Inr (no_body\<lparr>json_results := Some (map association is)\<rparr>))"

definition jane :: json_entry where
  "jane =
     \<lparr>toObjectId = None, entry_id = Some ''7'',
      entry_properties = Some [(''email'', ''jane@example.com'')], entry_label = None,
      entry_stages = None\<rparr>"

definition demo_table :: "(string \<times> response) list" where
  "demo_table =
     [(''https://crm.test/crm/v3/objects/contacts/7?properties=email,firstname,lastname'',
       Replied 200 (Inr (object ''7''
         [(''email'', ''jane@example.com''), (''firstname'', ''Jane''), (''lastname'', ''Doe'')]))),
      (''https://crm.test/crm/v4/objects/contacts/7/associations/calls'',
       associations [''c1'', ''c2'', ''c3'', ''c4'', ''c5'', ''c6'', ''c7'', ''c8'', ''c9'',
                     ''c10'', ''c11'', ''c12'']),
      (''https://crm.test/crm/v3/objects/calls/c1?properties=hs_call_title,hs_call_body,hs_call_status,hs_call_direction,hs_createdate'',
       Replied 200 (Inr (object ''c1''
         [(''hs_createdate'', ''2024-02-01T00:00:00.000Z''), (''hs_call_title'', ''Intro call'')]))),
      (''https://crm.test/crm/v3/objects/calls/c2?properties=hs_call_title,hs_call_body,hs_call_status,hs_call_direction,hs_createdate'',
       Replied 200 (Inr (object ''c2'' [(''hs_createdate'', ''2024-01-01T00:00:00.000Z'')]))),
      (''https://crm.test/crm/v3/objects/calls/c3?properties=hs_call_title,hs_call_body,hs_call_status,hs_call_direction,hs_createdate'',
       Replied 200 (Inr (object ''c3'' [(''hs_createdate'', ''2024-01-01T00:00:00.000Z'')]))),
      (''https://crm.test/crm/v3/objects/calls/c4?properties=hs_call_title,hs_call_body,hs_call_status,hs_call_direction,hs_createdate'',
       Replied 200 (Inr (object ''c4'' [(''hs_createdate'', ''2024-01-01T00:00:00.000Z'')]))),
      (''https://crm.test/crm/v3/objects/calls/c5?properties=hs_call_title,hs_call_body,hs_call_status,hs_call_direction,hs_createdate'',
       Replied 200 (Inr (object ''c5'' []))),
      (''https://crm.test/crm/v4/objects/contacts/7/associations/emails'',
       Replied 200 (Inr no_body)),
      (''https://crm.test/crm/v4/objects/contacts/7/associations/notes'',
       associations [''n1'']),
      (''https://crm.test/crm/v3/objects/notes/n1?properties=hs_note_body,hs_createdate'',
       Replied 200 (Inr (object ''n1''
         [(''hs_createdate'', ''2024-03-01T00:00:00.000Z''), (''hs_note_body'', ''Met at the fair'')]))),
      (''https://crm.test/crm/v4/objects/contacts/7/associations/tasks'',
       Replied 404 (Inr (no_body\<lparr>json_message := Some ''not found''\<rparr>))),
      (''https://crm.test/crm/v3/objects/contacts/8?properties=email,firstname,lastname'',
       Replied 200 (Inr (object ''8'' []))),
      (''https://crm.test/crm/v4/objects/contacts/8/associations/calls'',
       associations [''g1'', ''g2'']),
      (''https://crm.test/crm/v3/objects/calls/g1?properties=hs_call_title,hs_call_body,hs_call_status,hs_call_direction,hs_createdate'',
       Replied 200 (Inr (object ''g1'' [(''hs_createdate'', ''garbage'')]))),
      (''https://crm.test/crm/v3/objects/calls/g2?properties=hs_call_title,hs_call_body,hs_call_status,hs_call_direction,hs_createdate'',
       Replied 200 (Inr (object ''g2'' [(''hs_createdate'', ''2024-01-01T00:00:00.000Z'')]))),
      (''https://crm.test/crm/v3/objects/contacts/9?properties=email,firstname,lastname'',
       Replied 200 (Inr (object ''9'' []))),
      (''https://crm.test/crm/v4/objects/contacts/9/associations/calls'',
       associations [''u1'']),
      (''https://crm.test/crm/v3/objects/calls/u1?properties=hs_call_title,hs_call_body,hs_call_status,hs_call_direction,hs_createdate'',
       Replied 200 (Inr (object ''u1'' []))),
      (''https://crm.test/crm/v3/objects/contacts/10?properties=email,firstname,lastname'',
       Replied 200 (Inr (object ''10'' []))),
      (''https://crm.test/crm/v3/objects/contacts/11?properties=email,firstname,lastname'',
       Replied 200 (Inr (object ''11'' []))),
      (''https://crm.test/crm/v4/objects/contacts/11/associations/calls'',
       associations [''o1'', ''o2'']),
      (''https://crm.test/crm/v3/objects/calls/o1?properties=hs_call_title,hs_call_body,hs_call_status,hs_call_direction,hs_createdate'',
       Replied 200 (Inr (object ''o1'' []))),
      (''https://crm.test/crm/v3/objects/calls/o2?properties=hs_call_title,hs_call_body,hs_call_status,hs_call_direction,hs_createdate'',
       Replied 200 (Inr (object ''o2'' [(''hs_createdate'', ''1969-12-31T00:00:00.000Z'')]))),
      (''https://crm.test/crm/v3/objects/deals/42?properties=dealname,dealstage,amount,closedate,pipeline'',
       Replied 200 (Inr (object ''42'' [(''dealstage'', ''qualifiedtobuy'')]))),
      (''https://crm.test/crm/v3/objects/deals/43?properties=dealname,dealstage,amount,closedate,pipeline'',
       Replied 404 (Inr (no_body\<lparr>json_message := Some ''Deal not found''\<rparr>)))]"

definition demo_reply :: "request \<Rightarrow> response" where
  "demo_reply r =
     (case verb r of
        GET \<Rightarrow>
          (case map_of demo_table (url r) of
             Some res \<Rightarrow> res
           | None \<Rightarrow> Rejected ''network down'')
      | POST \<Rightarrow>
          (case content r of
             Some (Search p opr v fs) \<Rightarrow>
               if url r = ''https://crm.test/crm/v3/objects/contacts/search''
               then Replied 200 (Inr (no_body
                      \<lparr>json_results := Some (if v = ''jane@example.com'' then [jane] else [])\<rparr>))
               else Rejected ''network down''
           | Some (Properties ps) \<Rightarrow>
               if url r = ''https://crm.test/crm/v3/objects/contacts''
               then Replied 201 (Inr (object ''100'' ps))
               else Rejected ''network down''
           | None \<Rightarrow> Rejected ''network down'')
      | PATCH \<Rightarrow>
          (case content r of
             Some (Properties ps) \<Rightarrow>
               if url r = ''https://crm.test/crm/v3/objects/deals/42''
               then Replied 200 (Inr (object ''42'' ps))
               else Replied 404 (Inr (no_body\<lparr>json_message := Some ''Deal not found''\<rparr>))
           | _ \<Rightarrow> Rejected ''network down''))"

definition demo_net :: "nat \<Rightarrow> request \<Rightarrow> response \<times> nat" where
  "demo_net w r = (demo_reply r, Suc w)"

definition demo_getTime :: "string \<Rightarrow> int option" where
  "demo_getTime d =
     (if d = ''2024-01-01T00:00:00.000Z'' then Some 1704067200000
      else if d = ''2024-02-01T00:00:00.000Z'' then Some 1706745600000
      else if d = ''2024-03-01T00:00:00.000Z'' then Some 1709251200000
      else if d = ''1969-12-31T00:00:00.000Z'' then Some (- 86400000)
      else None)"

definition demo :: "nat runtime" where
  "demo =
     \<lparr>env = demo_env, net = demo_net, JSON_stringify = (\<lambda>b. ''{}''),
      Date_getTime = demo_getTime,
      Array_sort = (\<lambda>comparefn. stable_sort (SortCompare comparefn))\<rparr>"

definition unconfigured :: "nat runtime" where
  \<comment> \<open>the same system with no configuration at all\<close>
  "unconfigured = demo\<lparr>env := (\<lambda>name. None)\<rparr>"

definition start :: "nat io" where
  "start = \<lparr>world = 0, trace = []\<rparr>"

text \<open>A result to render: twelve calls of which four were fetched, and two notes.\<close>

definition sample_call :: "string \<Rightarrow> EngagementInfo" where
  "sample_call t =
     \<lparr>info_id = ''c'', createdAt = Some ''2024-02-01T00:00:00.000Z'', subject = Some t,
      body = None, info_status = None, direction = None\<rparr>"

definition sample_result :: envelope where
  "sample_result =
     (result True)
       \<lparr>contactName := Some ''Jane Doe'', email := Some ''jane@example.com'',
        summary := Some
          \<lparr>calls = \<lparr>etype = Calls, count = 12,
                    items = [sample_call ''Intro'', sample_call [], sample_call ''Demo'',
                             sample_call ''Pricing'']\<rparr>,
           emails = \<lparr>etype = Emails, count = 0, items = []\<rparr>,
           notes = \<lparr>etype = Notes, count = 2,
                    items = [\<lparr>info_id = ''n1'', createdAt = None, subject = None,
                              body = Some (replicate 101 (CHR ''x'')), info_status = None,
                              direction = None\<rparr>,
                             \<lparr>info_id = ''n2'', createdAt = None, subject = None,
                              body = Some ''short'', info_status = None, direction = None\<rparr>]\<rparr>,
           tasks = \<lparr>etype = Tasks, count = 0, items = []\<rparr>,
           meetings = \<lparr>etype = Meetings, count = 0, items = []\<rparr>,
           totalEngagements = 14,
           recentActivity = ''Most recent: calls on 2024-02-01T00:00:00.000Z''\<rparr>\<rparr>"

text \<open>Inputs of the tools: a deal that exists and one that does not; a known and a new email.\<close>

definition close_42 :: UpdateDealStageInput where
  "close_42 = \<lparr>in_dealId = ''42'', in_dealstage = ''closedwon'', in_notes = None\<rparr>"

definition close_43 :: UpdateDealStageInput where
  "close_43 = \<lparr>in_dealId = ''43'', in_dealstage = ''closedwon'', in_notes = None\<rparr>"

definition chat_jane :: ChatInput where
  "chat_jane =
     \<lparr>chat_email = ''jane@example.com'', chat_firstname = Some ''Jane'', chat_lastname = None,
      chat_phone = None, chat_company = None, chat_summary = None\<rparr>"

definition chat_neo :: ChatInput where
  "chat_neo =
     \<lparr>chat_email = ''neo@example.com'', chat_firstname = Some ''Neo'', chat_lastname = None,
      chat_phone = None, chat_company = Some [], chat_summary = Some ''asked for a demo''\<rparr>"

definition demo_repaired :: "nat runtime" where
  \<comment> \<open>the same system with a meetings index for contact 7 that works\<close>
  "demo_repaired =
     demo\<lparr>net := (\<lambda>w q. if q = associationsRequest ''7'' Meetings ''tok'' ''https://crm.test''
                          then (associations [''m1''], Suc w)
                          else demo_net w q)\<rparr>"

text \<open>The answers that the summaries of contacts 7 to 11 are expected to be.\<close>

definition info :: "string \<Rightarrow> string option \<Rightarrow> EngagementInfo" where
  "info i c =
     \<lparr>info_id = i, createdAt = c, subject = None, body = None, info_status = None,
      direction = None\<rparr>"

definition answer :: "string \<Rightarrow> string \<Rightarrow> string option \<Rightarrow> ActivitySummary \<Rightarrow> envelope" where
  "answer i name em sm =
     (result True)\<lparr>contactId := Some i, contactName := Some name, email := em, summary := Some sm\<rparr>"

definition calls_only :: "nat \<Rightarrow> EngagementInfo list \<Rightarrow> string \<Rightarrow> ActivitySummary" where
  "calls_only n xs recent =
     \<lparr>calls = \<lparr>etype = Calls, count = n, items = xs\<rparr>,
      emails = initialSummaries Emails, notes = initialSummaries Notes,
      tasks = initialSummaries Tasks, meetings = initialSummaries Meetings,
      totalEngagements = n, recentActivity = recent\<rparr>"

definition summary_7 :: ActivitySummary where
  "summary_7 =
     \<lparr>calls =
        \<lparr>etype = Calls, count = 12,
         items =
           [(info ''c1'' (Some ''2024-02-01T00:00:00.000Z''))\<lparr>subject := Some ''Intro call''\<rparr>,
            info ''c2'' (Some ''2024-01-01T00:00:00.000Z''),
            info ''c3'' (Some ''2024-01-01T00:00:00.000Z''),
            info ''c4'' (Some ''2024-01-01T00:00:00.000Z''),
            info ''c5'' None]\<rparr>,
      emails = initialSummaries Emails,
      notes =
        \<lparr>etype = Notes, count = 1,
         items =
           [(info ''n1'' (Some ''2024-03-01T00:00:00.000Z''))\<lparr>body := Some ''Met at the fair''\<rparr>]\<rparr>,
      tasks = initialSummaries Tasks,
      meetings = initialSummaries Meetings,
      totalEngagements = 13,
      recentActivity = ''Most recent: notes on 2024-03-01T00:00:00.000Z''\<rparr>"

definition summary_8 :: ActivitySummary where
  "summary_8 =
     calls_only 2 [info ''g1'' (Some ''garbage''), info ''g2'' (Some ''2024-01-01T00:00:00.000Z'')]
       ''Most recent: calls on garbage''"

definition summary_9 :: ActivitySummary where
  "summary_9 = calls_only 1 [info ''u1'' None] ''Most recent: calls on unknown date''"

definition summary_10 :: ActivitySummary where
  "summary_10 = calls_only 0 [] ''No recent activity found''"

definition summary_11 :: ActivitySummary where
  "summary_11 =
     calls_only 2 [info ''o1'' None, info ''o2'' (Some ''1969-12-31T00:00:00.000Z'')]
       ''Most recent: calls on unknown date''"

section \<open>The loops\<close>

lemma ok_failure: "\<not> ok (failure e)"
  by (simp add: failure_def result_def)

lemma summary_failure: "summary (failure e) = None"
  by (simp add: failure_def result_def)

lemma error_failure: "error (failure e) = Some e"
  by (simp add: failure_def result_def)

lemma length_fetchedDetails:
  "length (fst (fetchedDetails rt k token base ids s)) \<le> length ids"
proof (induction ids arbitrary: s)
  case Nil
  show ?case by simp
next
  case (Cons i ids)
  obtain d s' where g: "getEngagementDetails rt k i token base s = (d, s')"
    by (cases "getEngagementDetails rt k i token base s")
  have "length (fst (fetchedDetails rt k token base ids s')) \<le> length ids"
    by (rule Cons.IH)
  then show ?case
    using g by (cases d) (auto split: prod.splits)
qed

lemma detailsLoop_eq:
  "detailsLoop rt k token base ids (sums, allItems, s) =
     (sums(k := (sums k)\<lparr>items := items (sums k) @ fst (fetchedDetails rt k token base ids s)\<rparr>),
      allItems @ map (\<lambda>i. (k, createdAt i)) (fst (fetchedDetails rt k token base ids s)),
      snd (fetchedDetails rt k token base ids s))"
proof (induction ids arbitrary: sums allItems s)
  case Nil
  show ?case by simp
next
  case (Cons i ids)
  show ?case
    by (cases "getEngagementDetails rt k i token base s")
       (auto simp: Cons.IH Let_def split: option.splits prod.splits)
qed

lemma processType_eq:
  "processType rt cid token base k (sums, allItems, s) =
     (let ids = fst (getContactAssociations rt cid k token base s);
          fd = fetchedDetails rt k token base (take 5 ids)
                 (snd (getContactAssociations rt cid k token base s))
      in (sums(k := (sums k)\<lparr>items := items (sums k) @ fst fd, count := length ids\<rparr>),
          allItems @ map (\<lambda>i. (k, createdAt i)) (fst fd),
          snd fd))"
  by (simp add: processType_def detailsLoop_eq Let_def split: prod.splits)

lemma typesLoop_append:
  "typesLoop rt cid token base (xs @ ys) acc =
     typesLoop rt cid token base ys (typesLoop rt cid token base xs acc)"
  by (induction xs arbitrary: acc) auto

lemma typesLoop_other:
  "j \<notin> set ks \<Longrightarrow> fst (typesLoop rt cid token base ks (sums, allItems, s)) j = sums j"
proof (induction ks arbitrary: sums allItems s)
  case Nil
  show ?case by simp
next
  case (Cons k ks)
  then show ?case
    by (simp add: processType_eq Let_def)
qed

lemma typesLoop_timeline:
  "distinct ks \<Longrightarrow> (\<forall>k \<in> set ks. items (sums k) = []) \<Longrightarrow>
   fst (snd (typesLoop rt cid token base ks (sums, allItems, s))) =
     allItems @ concat (map (\<lambda>k. map (\<lambda>i. (k, createdAt i))
                  (items (fst (typesLoop rt cid token base ks (sums, allItems, s)) k))) ks)"
proof (induction ks arbitrary: sums allItems s)
  case Nil
  show ?case by simp
next
  case (Cons k ks)
  define ids where "ids = fst (getContactAssociations rt cid k token base s)"
  define fd where "fd = fetchedDetails rt k token base (take 5 ids)
               (snd (getContactAssociations rt cid k token base s))"
  define sums1 where
    "sums1 = sums(k := (sums k)\<lparr>items := items (sums k) @ fst fd, count := length ids\<rparr>)"
  define all1 where "all1 = allItems @ map (\<lambda>i. (k, createdAt i)) (fst fd)"
  have step: "typesLoop rt cid token base (k # ks) (sums, allItems, s) =
              typesLoop rt cid token base ks (sums1, all1, snd fd)"
    by (simp add: processType_eq Let_def sums1_def all1_def fd_def ids_def)
  have k: "k \<notin> set ks" and d: "distinct ks" using Cons.prems(1) by auto
  have e: "\<forall>j \<in> set ks. items (sums1 j) = []" using Cons.prems(2) k by (auto simp: sums1_def)
  have hd: "fst (typesLoop rt cid token base ks (sums1, all1, snd fd)) k = sums1 k"
    by (rule typesLoop_other[OF k])
  have ik: "items (sums1 k) = fst fd" using Cons.prems(2) by (simp add: sums1_def)
  have ih: "fst (snd (typesLoop rt cid token base ks (sums1, all1, snd fd))) =
        all1 @ concat (map (\<lambda>k. map (\<lambda>i. (k, createdAt i))
                  (items (fst (typesLoop rt cid token base ks (sums1, all1, snd fd)) k))) ks)"
    by (rule Cons.IH[OF d e])
  have "fst (snd (typesLoop rt cid token base ks (sums1, all1, snd fd))) =
        allItems @ map (\<lambda>i. (k, createdAt i)) (fst fd)
        @ concat (map (\<lambda>k. map (\<lambda>i. (k, createdAt i))
                  (items (fst (typesLoop rt cid token base ks (sums1, all1, snd fd)) k))) ks)"
    by (subst ih) (simp add: all1_def)
  then show ?case
    unfolding step by (simp add: hd ik)
qed

lemma engagementTypes_split:
  "engagementTypes =
     takeWhile (\<lambda>t. t \<noteq> k) engagementTypes @ k # tl (dropWhile (\<lambda>t. t \<noteq> k) engagementTypes)
   \<and> k \<notin> set (takeWhile (\<lambda>t. t \<noteq> k) engagementTypes)
   \<and> k \<notin> set (tl (dropWhile (\<lambda>t. t \<noteq> k) engagementTypes))"
  by (cases k) (simp_all add: engagementTypes_def)

lemma typeResult_eq:
  "typeResult rt cid token k s =
     \<lparr>etype = k,
      count = length (fst (getContactAssociations rt cid k token (HUBSPOT_BASE rt) s)),
      items = fst (fetchedDetails rt k token (HUBSPOT_BASE rt)
                     (take 5 (fst (getContactAssociations rt cid k token (HUBSPOT_BASE rt) s)))
                     (snd (getContactAssociations rt cid k token (HUBSPOT_BASE rt) s)))\<rparr>"
  by (simp add: typeResult_def processType_eq Let_def initialSummaries_def)

lemma typesLoop_entry:
  "fst (typesLoop rt cid token (HUBSPOT_BASE rt) engagementTypes
          (initialSummaries, [], snd (fetch rt (contactRequest cid token (HUBSPOT_BASE rt)) s))) k =
     typeResult rt cid token k (typeStart rt cid token s k)"
proof -
  let ?base = "HUBSPOT_BASE rt"
  let ?s1 = "snd (fetch rt (contactRequest cid token ?base) s)"
  let ?pre = "takeWhile (\<lambda>t. t \<noteq> k) engagementTypes"
  let ?post = "tl (dropWhile (\<lambda>t. t \<noteq> k) engagementTypes)"
  obtain sumsP allP sP where P:
    "typesLoop rt cid token ?base ?pre (initialSummaries, [], ?s1) = (sumsP, allP, sP)"
    by (cases "typesLoop rt cid token ?base ?pre (initialSummaries, [], ?s1)")
  have sp: "sP = typeStart rt cid token s k"
    by (simp add: typeStart_def P)
  have pre: "sumsP k = initialSummaries k"
    using typesLoop_other[of k ?pre rt cid token ?base initialSummaries "[]" ?s1]
      engagementTypes_split[of k]
    by (simp add: P)
  obtain sumsK allK sK where K:
    "processType rt cid token ?base k (sumsP, allP, sP) = (sumsK, allK, sK)"
    by (cases "processType rt cid token ?base k (sumsP, allP, sP)")
  have "typesLoop rt cid token ?base engagementTypes (initialSummaries, [], ?s1) =
        typesLoop rt cid token ?base ?post (sumsK, allK, sK)"
    by (subst conjunct1[OF engagementTypes_split[of k]]) (simp add: typesLoop_append P K)
  then have "fst (typesLoop rt cid token ?base engagementTypes (initialSummaries, [], ?s1)) k
             = sumsK k"
    using typesLoop_other[of k ?post] engagementTypes_split[of k] by simp
  also have "sumsK k = typeResult rt cid token k sP"
    using K by (auto simp: processType_eq typeResult_def Let_def pre initialSummaries_def)
  finally show ?thesis by (simp add: sp)
qed

section \<open>Runs of the activity summary\<close>

lemma summarize_summary:
  "summarize rt cid token base cd s1 = (r, s2) \<Longrightarrow>
   \<exists>sums allItems.
     typesLoop rt cid token base engagementTypes (initialSummaries, [], s1) = (sums, allItems, s2)
     \<and> ok r
     \<and> summary r =
         Some \<lparr>calls = sums Calls, emails = sums Emails, notes = sums Notes,
               tasks = sums Tasks, meetings = sums Meetings,
               totalEngagements = count (sums Calls) + count (sums Emails) + count (sums Notes)
                 + count (sums Tasks) + count (sums Meetings),
               recentActivity = recentActivityOf (Array_sort rt (compareFn rt) allItems)\<rparr>"
  by (auto simp: summarize_def result_def Let_def split: prod.splits)

lemma run_cases:
  assumes "getContactActivitySummary rt cid s = (r, s')"
  shows "(\<exists>e. r = failure e) \<or>
         (\<exists>token st cd s1. TOKEN rt = Some token \<and> token \<noteq> [] \<and> cid \<noteq> [] \<and>
            fetch rt (contactRequest cid token (HUBSPOT_BASE rt)) s = (Replied st (Inr cd), s1) \<and>
            res_ok st \<and> summarize rt cid token (HUBSPOT_BASE rt) cd s1 = (r, s'))"
  using assms
  by (auto simp: getContactActivitySummary_def
           split: option.splits if_splits prod.splits response.splits sum.splits)

lemma run_summary:
  assumes "TOKEN rt = Some token" and "getContactActivitySummary rt cid s = (r, s')"
    and "summary r = Some sm"
  shows "\<exists>sums allItems s2.
     typesLoop rt cid token (HUBSPOT_BASE rt) engagementTypes
       (initialSummaries, [], snd (fetch rt (contactRequest cid token (HUBSPOT_BASE rt)) s))
       = (sums, allItems, s2)
     \<and> sm = \<lparr>calls = sums Calls, emails = sums Emails, notes = sums Notes,
              tasks = sums Tasks, meetings = sums Meetings,
              totalEngagements = count (sums Calls) + count (sums Emails) + count (sums Notes)
                + count (sums Tasks) + count (sums Meetings),
              recentActivity = recentActivityOf (Array_sort rt (compareFn rt) allItems)\<rparr>"
  using run_cases[OF assms(2)] assms(1,3)
  by (auto simp: summary_failure dest!: summarize_summary)

lemma run_entry:
  assumes "TOKEN rt = Some token" and "getContactActivitySummary rt cid s = (r, s')"
    and "summary r = Some sm"
  shows "entry sm k = typeResult rt cid token k (typeStart rt cid token s k)"
proof -
  obtain sums allItems s2 where
    loop: "typesLoop rt cid token (HUBSPOT_BASE rt) engagementTypes
       (initialSummaries, [], snd (fetch rt (contactRequest cid token (HUBSPOT_BASE rt)) s))
       = (sums, allItems, s2)"
    and sm: "sm = \<lparr>calls = sums Calls, emails = sums Emails, notes = sums Notes,
              tasks = sums Tasks, meetings = sums Meetings,
              totalEngagements = count (sums Calls) + count (sums Emails) + count (sums Notes)
                + count (sums Tasks) + count (sums Meetings),
              recentActivity = recentActivityOf (Array_sort rt (compareFn rt) allItems)\<rparr>"
    using run_summary[OF assms] by blast
  have "entry sm k = sums k"
    by (cases k) (simp_all add: entry_def sm)
  also have "sums k = typeResult rt cid token k (typeStart rt cid token s k)"
    using typesLoop_entry[of rt cid token s k] by (simp add: loop)
  finally show ?thesis .
qed

lemma run_ok:
  assumes "TOKEN rt = Some token" and "token \<noteq> []" and "cid \<noteq> []"
    and "fst (fetch rt (contactRequest cid token (HUBSPOT_BASE rt)) s) = Replied st (Inr cd)"
    and "res_ok st"
  shows "ok (fst (getContactActivitySummary rt cid s))
         \<and> summary (fst (getContactActivitySummary rt cid s)) \<noteq> None"
  using assms
  by (cases "fetch rt (contactRequest cid token (HUBSPOT_BASE rt)) s")
     (auto simp: getContactActivitySummary_def summarize_def result_def Let_def split: prod.splits)

lemma failed_associations:
  "failed_fetch (fst (fetch rt (associationsRequest cid k token base) s)) \<Longrightarrow>
   fst (getContactAssociations rt cid k token base s) = []"
  by (cases "fetch rt (associationsRequest cid k token base) s")
     (auto simp: getContactAssociations_def failed_fetch_def split: response.splits sum.splits)

section \<open>The sort\<close>

lemma length_insert_by: "length (insert_by cmp x ys) = Suc (length ys)"
  by (induction ys) auto

lemma set_insert_by: "set (insert_by cmp x ys) = insert x (set ys)"
  by (induction ys) auto

lemma mset_insert_by: "mset (insert_by cmp x ys) = add_mset x (mset ys)"
  by (induction ys) auto

lemma mset_stable_sort: "mset (stable_sort cmp xs) = mset xs"
  by (induction xs) (auto simp: stable_sort_def mset_insert_by)

lemma SortCompare_dated:
  "dated rt a \<Longrightarrow> dated rt b \<Longrightarrow>
   SortCompare (compareFn rt) a b = timeKey rt b - timeKey rt a"
  by (auto simp: dated_def SortCompare_def compareFn_def timeKey_def split: option.splits)

lemma compareFn_dated: "dated rt a \<Longrightarrow> dated rt b \<Longrightarrow> compareFn rt a b \<noteq> None"
  by (auto simp: dated_def compareFn_def split: option.splits)

lemma consistent_dated:
  assumes "list_all (dated rt) xs"
  shows "consistent (compareFn rt) xs"
proof -
  have d: "dated rt a" if "a \<in> set xs" for a
    using assms that by (simp add: list_all_iff)
  show ?thesis
    unfolding consistent_def Let_def
    by (intro ballI) (simp add: SortCompare_dated compareFn_dated d)
qed

lemma insert_by_insort_key:
  "dated rt x \<Longrightarrow> list_all (dated rt) ys \<Longrightarrow>
   insert_by (SortCompare (compareFn rt)) x ys = insort_key (\<lambda>a. - timeKey rt a) x ys"
  by (induction ys) (auto simp: SortCompare_dated)

lemma stable_sort_sort_key:
  "list_all (dated rt) xs \<Longrightarrow>
   stable_sort (SortCompare (compareFn rt)) xs = sort_key (\<lambda>a. - timeKey rt a) xs"
proof (induction xs)
  case Nil
  show ?case by (simp add: stable_sort_def)
next
  case (Cons x xs)
  have ih: "stable_sort (SortCompare (compareFn rt)) xs = sort_key (\<lambda>a. - timeKey rt a) xs"
    using Cons by simp
  have "list_all (dated rt) (sort_key (\<lambda>a. - timeKey rt a) xs)"
    using Cons.prems by (simp add: list_all_iff)
  then have "insert_by (SortCompare (compareFn rt)) x (sort_key (\<lambda>a. - timeKey rt a) xs)
             = insort_key (\<lambda>a. - timeKey rt a) x (sort_key (\<lambda>a. - timeKey rt a) xs)"
    using Cons.prems by (intro insert_by_insort_key) simp_all
  then show ?case
    using ih by (simp add: stable_sort_def)
qed

text \<open>A conforming sort: an arrangement of the array; on dated items, the stable sort.\<close>

lemma mset_Array_sort: "conforming rt \<Longrightarrow> mset (Array_sort rt comparefn xs) = mset xs"
  by (simp add: conforming_def)

lemma set_Array_sort:
  assumes "conforming rt"
  shows "set (Array_sort rt comparefn xs) = set xs"
  using mset_Array_sort[OF assms, of comparefn xs] by (rule mset_eq_setD)

lemma Array_sort_Nil:
  assumes "conforming rt"
  shows "(Array_sort rt comparefn xs = []) = (xs = [])"
  using mset_Array_sort[OF assms, of comparefn xs] by (metis mset_zero_iff)

lemma Array_sort_sort_key:
  assumes "conforming rt" and "list_all (dated rt) xs"
  shows "Array_sort rt (compareFn rt) xs = sort_key (\<lambda>a. - timeKey rt a) xs"
proof -
  have "Array_sort rt (compareFn rt) xs = stable_sort (SortCompare (compareFn rt)) xs"
    using assms(1) consistent_dated[OF assms(2)] by (simp add: conforming_def)
  then show ?thesis
    by (simp add: stable_sort_sort_key[OF assms(2)])
qed

lemma Array_sort_descending:
  assumes "conforming rt" and "list_all (dated rt) xs"
  shows "sorted_wrt (\<lambda>a b. timeKey rt b \<le> timeKey rt a) (Array_sort rt (compareFn rt) xs)"
proof -
  have "sorted (map (\<lambda>a. - timeKey rt a) (sort_key (\<lambda>a. - timeKey rt a) xs))"
    by (rule sorted_sort_key)
  then show ?thesis
    by (simp add: Array_sort_sort_key[OF assms] sorted_map)
qed

lemma Array_sort_stable:
  assumes "conforming rt" and "list_all (dated rt) xs"
  shows "filter (\<lambda>a. timeKey rt a = t) (Array_sort rt (compareFn rt) xs)
         = filter (\<lambda>a. timeKey rt a = t) xs"
proof -
  have "filter (\<lambda>a. - timeKey rt a = - t) (sort_key (\<lambda>a. - timeKey rt a) xs)
        = filter (\<lambda>a. - timeKey rt a = - t) xs"
    by (rule sort_key_stable)
  then show ?thesis
    by (simp add: Array_sort_sort_key[OF assms])
qed

lemma distinct_engagementTypes: "distinct engagementTypes"
  by (simp add: engagementTypes_def)

lemma run_merged:
  assumes "TOKEN rt = Some token" and "getContactActivitySummary rt cid s = (r, s')"
    and "summary r = Some sm"
  shows "fst (snd (typesLoop rt cid token (HUBSPOT_BASE rt) engagementTypes
            (initialSummaries, [], snd (fetch rt (contactRequest cid token (HUBSPOT_BASE rt)) s))))
           = mergedItems sm
         \<and> recentActivity sm = recentActivityOf (Array_sort rt (compareFn rt) (mergedItems sm))"
proof -
  let ?init = "(initialSummaries, [], snd (fetch rt (contactRequest cid token (HUBSPOT_BASE rt)) s))"
  obtain sums allItems s2 where
    loop: "typesLoop rt cid token (HUBSPOT_BASE rt) engagementTypes ?init = (sums, allItems, s2)"
    and sm: "sm = \<lparr>calls = sums Calls, emails = sums Emails, notes = sums Notes,
              tasks = sums Tasks, meetings = sums Meetings,
              totalEngagements = count (sums Calls) + count (sums Emails) + count (sums Notes)
                + count (sums Tasks) + count (sums Meetings),
              recentActivity = recentActivityOf (Array_sort rt (compareFn rt) allItems)\<rparr>"
    using run_summary[OF assms] by blast
  have e: "entry sm k = sums k" for k
    by (cases k) (simp_all add: entry_def sm)
  have "fst (snd (typesLoop rt cid token (HUBSPOT_BASE rt) engagementTypes ?init)) =
        [] @ concat (map (\<lambda>k. map (\<lambda>i. (k, createdAt i))
          (items (fst (typesLoop rt cid token (HUBSPOT_BASE rt) engagementTypes ?init) k)))
          engagementTypes)"
    by (rule typesLoop_timeline[OF distinct_engagementTypes]) (simp add: initialSummaries_def)
  then have a: "allItems = mergedItems sm"
    by (simp add: loop mergedItems_def e)
  show ?thesis
    using a by (simp add: loop sm)
qed

lemma recentActivityOf_sentinel:
  "(recentActivityOf xs = ''No recent activity found'') = (xs = [])"
  by (cases xs) (simp_all add: recentActivityOf_def)

lemma recentActivityOf_Cons: "recentActivityOf (a # xs) = recentActivityOf (a # ys)"
  by (simp add: recentActivityOf_def)

text \<open>
  The head of a conforming sort of dated items: the first, in the order of the array, of
  the items of greatest time.
\<close>

lemma Array_sort_head:
  assumes "conforming rt" and "list_all (dated rt) xs"
  shows "recentActivityOf (Array_sort rt (compareFn rt) xs)
         = recentActivityOf (filter (\<lambda>a. \<forall>b \<in> set xs. timeKey rt b \<le> timeKey rt a) xs)"
proof (cases "xs = []")
  case True
  then show ?thesis
    using Array_sort_Nil[OF assms(1), of "compareFn rt" xs] by simp
next
  case False
  let ?ys = "Array_sort rt (compareFn rt) xs"
  obtain y ys where ys: "?ys = y # ys"
    using False Array_sort_Nil[OF assms(1), of "compareFn rt" xs] by (cases ?ys) auto
  have s: "set ?ys = set xs"
    by (rule set_Array_sort[OF assms(1)])
  have y: "y \<in> set xs"
    using s by (auto simp: ys)
  have top: "timeKey rt b \<le> timeKey rt y" if "b \<in> set xs" for b
    using Array_sort_descending[OF assms] that s by (auto simp: ys)
  have "filter (\<lambda>a. \<forall>b \<in> set xs. timeKey rt b \<le> timeKey rt a) xs
        = filter (\<lambda>a. timeKey rt a = timeKey rt y) xs"
  proof (rule filter_cong[OF refl])
    fix a assume a: "a \<in> set xs"
    show "(\<forall>b \<in> set xs. timeKey rt b \<le> timeKey rt a) = (timeKey rt a = timeKey rt y)"
      using top[OF a] top y by auto
  qed
  also have "\<dots> = filter (\<lambda>a. timeKey rt a = timeKey rt y) ?ys"
    by (rule Array_sort_stable[OF assms, symmetric])
  also have "\<dots> = y # filter (\<lambda>a. timeKey rt a = timeKey rt y) ys"
    by (simp add: ys)
  finally have f: "filter (\<lambda>a. \<forall>b \<in> set xs. timeKey rt b \<le> timeKey rt a) xs
                   = y # filter (\<lambda>a. timeKey rt a = timeKey rt y) ys" .
  show ?thesis
    unfolding ys f by (rule recentActivityOf_Cons)
qed

lemma sorted_head_greatest:
  assumes "sorted_wrt (\<lambda>a b. timeKey rt b \<le> timeKey rt a) (a # ys)" and "b \<in> set (a # ys)"
  shows "timeKey rt b \<le> timeKey rt a"
  using assms by auto

section \<open>Requests made\<close>

lemma trace_fetch: "trace (snd (fetch rt q s)) = trace s @ [q]"
  by (simp add: fetch_def split: prod.splits)

lemma issued_same: "issued s s = []"
  by (simp add: issued_def)

lemma issued_fetch: "issued s (snd (fetch rt q s)) = [q]"
  by (simp add: issued_def trace_fetch)

lemma issued_fetch2: "issued s (snd (fetch rt q' (snd (fetch rt q s)))) = [q, q']"
  by (simp add: issued_def trace_fetch)

lemma snd_writeObject: "snd (writeObject rt q s) = snd (fetch rt q s)"
  by (cases "fetch rt q s")
     (auto simp: writeObject_def split: response.splits sum.splits)

lemma snd_lookupDeal:
  "snd (lookupDeal rt d token base s) = snd (fetch rt (dealRequest d token base) s)"
  by (cases "fetch rt (dealRequest d token base) s")
     (auto simp: lookupDeal_def split: response.splits sum.splits)

lemma ok_lookupDeal:
  "ok (fst (lookupDeal rt d token base s)) \<Longrightarrow>
   \<exists>st bd. fst (fetch rt (dealRequest d token base) s) = Replied st (Inr bd) \<and> res_ok st
      \<and> deal (fst (lookupDeal rt d token base s)) = Some bd"
  by (cases "fetch rt (dealRequest d token base) s")
     (auto simp: lookupDeal_def ok_failure result_def split: response.splits sum.splits if_splits)

lemma getDealById_token:
  "TOKEN rt = Some token \<Longrightarrow> token \<noteq> [] \<Longrightarrow>
   getDealById rt d s = lookupDeal rt d token (HUBSPOT_BASE rt) s"
  by (simp add: getDealById_def)

lemma getDealById_no_token:
  "\<not> truthy (TOKEN rt) \<Longrightarrow> getDealById rt d s = (failure missing_token, s)"
  by (auto simp: getDealById_def truthy_def split: option.splits)

lemma updateDealStage_no_token:
  "\<not> truthy (TOKEN rt) \<Longrightarrow> updateDealStage rt di s = (failure missing_token, s)"
  by (auto simp: updateDealStage_def truthy_def split: option.splits)

lemma truthy_token: "truthy (TOKEN rt) = (\<exists>token. TOKEN rt = Some token \<and> token \<noteq> [])"
  by (auto simp: truthy_def split: option.splits)

lemma not_patch_get: "verb (dealRequest d token base) \<noteq> PATCH"
  by (simp add: dealRequest_def)

lemma issued_getDealById:
  "issued s (snd (getDealById rt d s)) = [] \<or>
   (\<exists>token. TOKEN rt = Some token \<and> token \<noteq> [] \<and>
      issued s (snd (getDealById rt d s)) = [dealRequest d token (HUBSPOT_BASE rt)])"
  by (auto simp: getDealById_def issued_same snd_lookupDeal issued_fetch split: option.splits)

lemma searchContactByEmail_reply:
  assumes "TOKEN rt = Some token" and "token \<noteq> []"
    and "fetch rt (searchRequest em token (HUBSPOT_BASE rt)) s = (Replied st (Inr bd), s1)"
    and "res_ok st"
  shows "searchContactByEmail rt em s =
           ((case json_results bd of
               Some (r # rs) \<Rightarrow> (result True)\<lparr>contactId := entry_id r, contact := Some r\<rparr>
             | _ \<Rightarrow> result True), s1)"
    and "tool_searchContactByEmail rt em token (HUBSPOT_BASE rt) s =
           ((case json_results bd of
               Some (r # rs) \<Rightarrow> (result True)\<lparr>contactId := entry_id r, contact := Some r\<rparr>
             | _ \<Rightarrow> result True), s1)"
  using assms
  by (auto simp: searchContactByEmail_def tool_searchContactByEmail_def
           split: option.splits list.splits)

lemma snd_tool_createContact:
  "snd (tool_createContact rt ps token base s) =
   snd (fetch rt \<lparr>verb = POST, url = base @ ''/crm/v3/objects/contacts'', bearer = token,
                   content = Some (Properties ps)\<rparr> s)"
  by (cases "fetch rt \<lparr>verb = POST, url = base @ ''/crm/v3/objects/contacts'', bearer = token,
                        content = Some (Properties ps)\<rparr> s")
     (auto simp: tool_createContact_def split: response.splits sum.splits)

lemma snd_createContact:
  assumes "TOKEN rt = Some token" and "token \<noteq> []" and "contactProperties input \<noteq> []"
  shows "snd (createContact rt input s) =
         snd (fetch rt \<lparr>verb = POST, url = HUBSPOT_BASE rt @ ''/crm/v3/objects/contacts'',
                         bearer = token, content = Some (Properties (contactProperties input))\<rparr> s)"
  using assms by (simp add: createContact_def snd_writeObject)

lemma ok_result: "ok (result True)" and contactId_result: "contactId (result b) = None"
  by (simp_all add: result_def)

section \<open>Two remote systems that differ in one reply\<close>

lemma type_name_inj: "type_name j = type_name k \<Longrightarrow> j = k"
  by (cases j; cases k) simp_all

lemma associationsRequest_inj:
  "associationsRequest cid j token base = associationsRequest cid k token base \<Longrightarrow> j = k"
  by (simp add: associationsRequest_def type_name_inj)

lemma detailsRequest_not_associations:
  "detailsRequest j i token base \<noteq> associationsRequest cid k token base"
  by (simp add: detailsRequest_def associationsRequest_def)

lemma contactRequest_not_associations:
  "contactRequest cid token base \<noteq> associationsRequest cid k token base"
  by (simp add: contactRequest_def associationsRequest_def)

lemma fst_fetch: "fst (fetch rt q s) = fst (net rt (world s) q)"
  by (simp add: fetch_def split: prod.splits)

lemma getContactAssociations_reply:
  "fst (fetch rt q s) = fst (fetch rt2 q s2) \<Longrightarrow> q = associationsRequest cid j token base \<Longrightarrow>
   fst (getContactAssociations rt cid j token base s)
   = fst (getContactAssociations rt2 cid j token base s2)"
  by (cases "fetch rt q s"; cases "fetch rt2 q s2")
     (auto simp: getContactAssociations_def split: response.splits sum.splits)

lemma getEngagementDetails_reply:
  "fst (fetch rt q s) = fst (fetch rt2 q s2) \<Longrightarrow> q = detailsRequest j i token base \<Longrightarrow>
   fst (getEngagementDetails rt j i token base s)
   = fst (getEngagementDetails rt2 j i token base s2)"
  by (cases "fetch rt q s"; cases "fetch rt2 q s2")
     (auto simp: getEngagementDetails_def split: response.splits sum.splits)

lemma fetchedDetails_reply:
  assumes "\<And>i s s2. fst (fetch rt (detailsRequest j i token base) s)
                      = fst (fetch rt2 (detailsRequest j i token base) s2)"
  shows "fst (fetchedDetails rt j token base ids s) = fst (fetchedDetails rt2 j token base ids s2)"
proof (induction ids arbitrary: s s2)
  case Nil
  show ?case by simp
next
  case (Cons i ids)
  obtain d s' where g: "getEngagementDetails rt j i token base s = (d, s')"
    by (cases "getEngagementDetails rt j i token base s")
  obtain d2 s2' where g2: "getEngagementDetails rt2 j i token base s2 = (d2, s2')"
    by (cases "getEngagementDetails rt2 j i token base s2")
  have "d = d2"
    using getEngagementDetails_reply[OF assms[of i s s2] refl] by (simp add: g g2)
  then show ?case
    using Cons.IH[of s' s2'] by (cases d) (auto simp: g g2 split: prod.splits)
qed

lemma typeResult_reply:
  assumes "HUBSPOT_BASE rt2 = HUBSPOT_BASE rt"
    and "\<And>q s s2. q \<noteq> associationsRequest cid k token (HUBSPOT_BASE rt) \<Longrightarrow>
           fst (fetch rt2 q s2) = fst (fetch rt q s)"
    and "j \<noteq> k"
  shows "typeResult rt2 cid token j s2 = typeResult rt cid token j s"
proof -
  let ?base = "HUBSPOT_BASE rt"
  have a: "associationsRequest cid j token ?base \<noteq> associationsRequest cid k token ?base"
    using assms(3) associationsRequest_inj by blast
  have ids: "fst (getContactAssociations rt2 cid j token ?base s2)
             = fst (getContactAssociations rt cid j token ?base s)"
    by (rule getContactAssociations_reply[OF assms(2)[OF a] refl])
  have fd: "fst (fetchedDetails rt2 j token ?base ids' t2) = fst (fetchedDetails rt j token ?base ids' t)"
    for ids' t t2
    by (rule fetchedDetails_reply) (rule assms(2)[OF detailsRequest_not_associations])
  show ?thesis
    by (simp add: typeResult_eq assms(1) ids fd)
qed

section \<open>Runs against the concrete remote system\<close>

lemma conforming_demo: "conforming demo"
  by (simp add: conforming_def demo_def mset_stable_sort)

lemma demo_token: "TOKEN demo = Some ''tok''"
  by code_simp

lemma demo_base: "HUBSPOT_BASE demo = ''https://crm.test''"
  by code_simp

lemma demo_fetch: "fst (fetch demo q s) = demo_reply q"
  by (simp add: fetch_def demo_def demo_net_def)

lemma demo_answer_7:
  "fst (getContactActivitySummary demo ''7'' start)
   = answer ''7'' ''Jane Doe'' (Some ''jane@example.com'') summary_7"
  by code_simp

lemma demo_answer_8:
  "fst (getContactActivitySummary demo ''8'' start) = answer ''8'' ''Unknown'' None summary_8"
  by code_simp

lemma demo_answer_9:
  "fst (getContactActivitySummary demo ''9'' start) = answer ''9'' ''Unknown'' None summary_9"
  by code_simp

lemma demo_answer_10:
  "fst (getContactActivitySummary demo ''10'' start) = answer ''10'' ''Unknown'' None summary_10"
  by code_simp

lemma demo_answer_11:
  "fst (getContactActivitySummary demo ''11'' start) = answer ''11'' ''Unknown'' None summary_11"
  by code_simp

lemma summary_answer: "summary (answer i name em sm) = Some sm" and ok_answer: "ok (answer i name em sm)"
  by (simp_all add: answer_def result_def)

section \<open>Properties\<close>

subsection \<open>Counts and samples\<close>

text \<open>
  C1. In every run that yields a summary, and for every engagement type, the count is the
  length of the list of association identifiers that the run received for that type, the
  items are at most 5, and they are at most the count.
\<close>

theorem count_is_association_total:
  assumes "TOKEN rt = Some token" and "getContactActivitySummary rt cid s = (r, s')"
    and "summary r = Some sm"
  shows "count (entry sm k) = length (associationIds rt cid token s k)
         \<and> length (items (entry sm k)) \<le> 5
         \<and> length (items (entry sm k)) \<le> count (entry sm k)"
proof -
  let ?s = "typeStart rt cid token s k"
  let ?ids = "fst (getContactAssociations rt cid k token (HUBSPOT_BASE rt) ?s)"
  let ?fd = "fetchedDetails rt k token (HUBSPOT_BASE rt) (take 5 ?ids)
               (snd (getContactAssociations rt cid k token (HUBSPOT_BASE rt) ?s))"
  have e: "entry sm k = \<lparr>etype = k, count = length ?ids, items = fst ?fd\<rparr>"
    using run_entry[OF assms, of k] by (simp add: typeResult_eq)
  have "length (fst ?fd) \<le> length (take 5 ?ids)"
    by (rule length_fetchedDetails)
  then show ?thesis
    by (simp add: e associationIds_def)
qed

theorem count_is_association_total_witness:
  "TOKEN demo = Some ''tok''
   \<and> summary (fst (getContactActivitySummary demo ''7'' start)) = Some summary_7
   \<and> length (associationIds demo ''7'' ''tok'' start Calls) = 12
   \<and> count (entry summary_7 Calls) = 12
   \<and> length (items (entry summary_7 Calls)) = 5"
proof -
  obtain r s' where run: "getContactActivitySummary demo ''7'' start = (r, s')"
    by (cases "getContactActivitySummary demo ''7'' start")
  have sm: "summary r = Some summary_7"
    using demo_answer_7 by (simp add: run summary_answer)
  have n: "length (associationIds demo ''7'' ''tok'' start Calls) = 12"
    by code_simp
  have i: "length (items (entry summary_7 Calls)) = 5"
    by code_simp
  show ?thesis
    using count_is_association_total[OF demo_token run sm, of Calls] demo_token sm n i
    by (simp add: run)
qed

text \<open>
  C2. In every successful run the total is the sum of the five counts, whatever the
  number of items fetched; a contact for which the run receives no association of any
  type has the total 0.
\<close>

theorem total_is_sum_of_counts:
  assumes "TOKEN rt = Some token" and "getContactActivitySummary rt cid s = (r, s')" and "ok r"
  shows "\<exists>sm. summary r = Some sm
           \<and> totalEngagements sm =
               count (calls sm) + count (emails sm) + count (notes sm) + count (tasks sm)
               + count (meetings sm)
           \<and> ((\<forall>k. associationIds rt cid token s k = []) \<longrightarrow> totalEngagements sm = 0)"
proof -
  obtain sm where sm: "summary r = Some sm"
    and total: "totalEngagements sm =
               count (calls sm) + count (emails sm) + count (notes sm) + count (tasks sm)
               + count (meetings sm)"
    using run_cases[OF assms(2)] assms(3)
    by (auto simp: ok_failure dest!: summarize_summary)
  have c: "count (entry sm k) = length (associationIds rt cid token s k)" for k
    using run_entry[OF assms(1,2) sm, of k] by (simp add: typeResult_eq associationIds_def)
  have "totalEngagements sm = 0" if "\<forall>k. associationIds rt cid token s k = []"
    using that c[of Calls] c[of Emails] c[of Notes] c[of Tasks] c[of Meetings]
    by (simp add: total entry_def)
  then show ?thesis using sm total by blast
qed

theorem total_is_sum_of_counts_witness:
  "TOKEN demo = Some ''tok''
   \<and> fst (getContactActivitySummary demo ''7'' start)
       = answer ''7'' ''Jane Doe'' (Some ''jane@example.com'') summary_7
   \<and> totalEngagements summary_7 = 13
   \<and> map (\<lambda>k. count (entry summary_7 k)) engagementTypes = [12, 0, 1, 0, 0]
   \<and> map (\<lambda>k. length (items (entry summary_7 k))) engagementTypes = [5, 0, 1, 0, 0]
   \<and> fst (getContactActivitySummary demo ''10'' start) = answer ''10'' ''Unknown'' None summary_10
   \<and> map (demo_reply \<circ> (\<lambda>k. associationsRequest ''10'' k ''tok'' ''https://crm.test''))
         engagementTypes
       = replicate 5 (Rejected ''network down'')
   \<and> totalEngagements summary_10 = 0"
proof -
  obtain r s' where run: "getContactActivitySummary demo ''10'' start = (r, s')"
    by (cases "getContactActivitySummary demo ''10'' start")
  have r: "r = answer ''10'' ''Unknown'' None summary_10"
    using demo_answer_10 by (simp add: run)
  have "ok r" by (simp add: r ok_answer)
  from total_is_sum_of_counts[OF demo_token run this]
  obtain sm where sm: "summary r = Some sm"
    and imp: "(\<forall>k. associationIds demo ''10'' ''tok'' start k = []) \<longrightarrow> totalEngagements sm = 0"
    by blast
  have "sm = summary_10"
    using sm by (simp add: r summary_answer)
  then have z: "(\<forall>k. associationIds demo ''10'' ''tok'' start k = []) \<longrightarrow> totalEngagements summary_10 = 0"
    using imp by (simp only:)
  have f: "map (demo_reply \<circ> (\<lambda>k. associationsRequest ''10'' k ''tok'' ''https://crm.test''))
             engagementTypes
           = replicate 5 (Rejected ''network down'')"
    by code_simp
  have "failed_fetch (fst (fetch demo (associationsRequest ''10'' k ''tok'' (HUBSPOT_BASE demo))
                              (typeStart demo ''10'' ''tok'' start k)))" for k
    using f by (cases k) (simp_all add: demo_fetch demo_base engagementTypes_def failed_fetch_def eval_nat_numeral)
  then have "associationIds demo ''10'' ''tok'' start k = []" for k
    unfolding associationIds_def by (rule failed_associations)
  then have t: "totalEngagements summary_10 = 0"
    using z by simp
  have c: "totalEngagements summary_7 = 13
     \<and> map (\<lambda>k. count (entry summary_7 k)) engagementTypes = [12, 0, 1, 0, 0]
     \<and> map (\<lambda>k. length (items (entry summary_7 k))) engagementTypes = [5, 0, 1, 0, 0]"
    by code_simp
  show ?thesis
    using demo_token demo_answer_7 demo_answer_10 f t c by simp
qed

subsection \<open>Failures\<close>

text \<open>
  C5. When the request for the associations of one type meets a transport failure or a
  status that is not a success, the association fetcher returns the empty list; the run
  still succeeds, that type has count 0 and no items, and every type has the summary
  that its own loop body yields from the state in which its work starts. The other
  types have the summaries they have in any run against a remote system that answers
  every other request in the same way, such as one where the failed request succeeds.
\<close>

theorem association_failure_is_absorbed:
  fixes rt :: "'w runtime"
  assumes "TOKEN rt = Some token" and "token \<noteq> []" and "cid \<noteq> []"
    and "fst (fetch rt (contactRequest cid token (HUBSPOT_BASE rt)) s) = Replied st (Inr contactData)"
    and "res_ok st"
    and "failed_fetch (fst (fetch rt (associationsRequest cid k token (HUBSPOT_BASE rt))
                              (typeStart rt cid token s k)))"
  shows "associationIds rt cid token s k = []
         \<and> ok (fst (getContactActivitySummary rt cid s))
         \<and> (\<exists>sm. summary (fst (getContactActivitySummary rt cid s)) = Some sm
               \<and> entry sm k = \<lparr>etype = k, count = 0, items = []\<rparr>
               \<and> (\<forall>j. entry sm j = typeResult rt cid token j (typeStart rt cid token s j))
               \<and> (\<forall>(rt2 :: 'v runtime) s2.
                     env rt2 = env rt
                     \<and> (\<forall>w w2 q. q \<noteq> associationsRequest cid k token (HUBSPOT_BASE rt) \<longrightarrow>
                                   fst (net rt2 w2 q) = fst (net rt w q)) \<longrightarrow>
                     (\<exists>sm2. summary (fst (getContactActivitySummary rt2 cid s2)) = Some sm2
                          \<and> (\<forall>j. j \<noteq> k \<longrightarrow> entry sm2 j = entry sm j))))"
proof -
  let ?base = "HUBSPOT_BASE rt"
  have ids: "associationIds rt cid token s k = []"
    unfolding associationIds_def by (rule failed_associations[OF assms(6)])
  obtain r s' where run: "getContactActivitySummary rt cid s = (r, s')"
    by (cases "getContactActivitySummary rt cid s")
  have okr: "ok r" and "summary r \<noteq> None"
    using run_ok[OF assms(1-5)] by (simp_all add: run)
  then obtain sm where sm: "summary r = Some sm" by auto
  have all: "entry sm j = typeResult rt cid token j (typeStart rt cid token s j)" for j
    by (rule run_entry[OF assms(1) run sm])
  have k: "entry sm k = \<lparr>etype = k, count = 0, items = []\<rparr>"
    using ids by (simp add: all typeResult_eq associationIds_def)
  have other: "\<exists>sm2. summary (fst (getContactActivitySummary rt2 cid s2)) = Some sm2
                  \<and> (\<forall>j. j \<noteq> k \<longrightarrow> entry sm2 j = entry sm j)"
    if e: "env rt2 = env rt"
      and a: "\<forall>w w2 q. q \<noteq> associationsRequest cid k token ?base \<longrightarrow>
                       fst (net rt2 w2 q) = fst (net rt w q)"
    for rt2 :: "'v runtime" and s2
  proof -
    have t2: "TOKEN rt2 = Some token" using assms(1) e by (simp add: TOKEN_def)
    have b2: "HUBSPOT_BASE rt2 = ?base" using e by (simp add: HUBSPOT_BASE_def)
    have f: "fst (fetch rt2 q v) = fst (fetch rt q u)"
      if "q \<noteq> associationsRequest cid k token ?base" for q u v
      using a that by (simp add: fst_fetch)
    have c2: "fst (fetch rt2 (contactRequest cid token (HUBSPOT_BASE rt2)) s2)
              = Replied st (Inr contactData)"
      using f[OF contactRequest_not_associations, where v = s2 and u = s] assms(4) by (simp add: b2)
    obtain r2 s2' where run2: "getContactActivitySummary rt2 cid s2 = (r2, s2')"
      by (cases "getContactActivitySummary rt2 cid s2")
    have "summary r2 \<noteq> None"
      using run_ok[OF t2 assms(2,3) c2 assms(5)] by (simp add: run2)
    then obtain sm2 where sm2: "summary r2 = Some sm2" by auto
    have "entry sm2 j = entry sm j" if "j \<noteq> k" for j
    proof -
      have "entry sm2 j = typeResult rt2 cid token j (typeStart rt2 cid token s2 j)"
        by (rule run_entry[OF t2 run2 sm2])
      also have "\<dots> = typeResult rt cid token j (typeStart rt cid token s j)"
        by (rule typeResult_reply[OF b2 f that])
      finally show ?thesis by (simp add: all)
    qed
    then show ?thesis by (simp add: run2 sm2)
  qed
  have last: "\<forall>(rt2 :: 'v runtime) s2.
                env rt2 = env rt
                \<and> (\<forall>w w2 q. q \<noteq> associationsRequest cid k token ?base \<longrightarrow>
                              fst (net rt2 w2 q) = fst (net rt w q)) \<longrightarrow>
                (\<exists>sm2. summary (fst (getContactActivitySummary rt2 cid s2)) = Some sm2
                     \<and> (\<forall>j. j \<noteq> k \<longrightarrow> entry sm2 j = entry sm j))"
    using other by blast
  have p: "summary (fst (getContactActivitySummary rt cid s)) = Some sm"
    by (simp add: run sm)
  have q: "ok (fst (getContactActivitySummary rt cid s))"
    by (simp add: run okr)
  have a: "\<forall>j. entry sm j = typeResult rt cid token j (typeStart rt cid token s j)"
    using all by blast
  show ?thesis
    by (intro conjI exI[of _ sm]) (rule ids q p k a last)+
qed

theorem association_failure_is_absorbed_witness:
  "TOKEN demo = Some ''tok''
   \<and> demo_reply (contactRequest ''7'' ''tok'' ''https://crm.test'')
       = Replied 200 (Inr (object ''7''
           [(''email'', ''jane@example.com''), (''firstname'', ''Jane''), (''lastname'', ''Doe'')]))
   \<and> demo_reply (associationsRequest ''7'' Meetings ''tok'' ''https://crm.test'')
       = Rejected ''network down''
   \<and> demo_reply (associationsRequest ''7'' Tasks ''tok'' ''https://crm.test'')
       = Replied 404 (Inr (no_body\<lparr>json_message := Some ''not found''\<rparr>))
   \<and> fst (getContactActivitySummary demo ''7'' start)
       = answer ''7'' ''Jane Doe'' (Some ''jane@example.com'') summary_7
   \<and> meetings summary_7 = \<lparr>etype = Meetings, count = 0, items = []\<rparr>
   \<and> tasks summary_7 = \<lparr>etype = Tasks, count = 0, items = []\<rparr>
   \<and> (case summary (fst (getContactActivitySummary demo_repaired ''7'' start)) of
        None \<Rightarrow> False
      | Some sm2 \<Rightarrow>
          count (meetings sm2) = 1 \<and> calls sm2 = calls summary_7
          \<and> emails sm2 = emails summary_7 \<and> notes sm2 = notes summary_7
          \<and> tasks sm2 = tasks summary_7)"
proof -
  have c: "demo_reply (contactRequest ''7'' ''tok'' ''https://crm.test'')
       = Replied 200 (Inr (object ''7''
           [(''email'', ''jane@example.com''), (''firstname'', ''Jane''), (''lastname'', ''Doe'')]))"
    by code_simp
  have m: "demo_reply (associationsRequest ''7'' Meetings ''tok'' ''https://crm.test'')
       = Rejected ''network down''"
    by code_simp
  have k: "demo_reply (associationsRequest ''7'' Tasks ''tok'' ''https://crm.test'')
       = Replied 404 (Inr (no_body\<lparr>json_message := Some ''not found''\<rparr>))"
    by code_simp
  have e: "meetings summary_7 = \<lparr>etype = Meetings, count = 0, items = []\<rparr>
   \<and> tasks summary_7 = \<lparr>etype = Tasks, count = 0, items = []\<rparr>"
    by code_simp
  have o: "case summary (fst (getContactActivitySummary demo_repaired ''7'' start)) of
        None \<Rightarrow> False
      | Some sm2 \<Rightarrow>
          count (meetings sm2) = 1 \<and> calls sm2 = calls summary_7
          \<and> emails sm2 = emails summary_7 \<and> notes sm2 = notes summary_7
          \<and> tasks sm2 = tasks summary_7"
    by code_simp
  have n: "''tok'' \<noteq> []" and i: "''7'' \<noteq> []" by simp_all
  have cf: "fst (fetch demo (contactRequest ''7'' ''tok'' (HUBSPOT_BASE demo)) start)
            = Replied 200 (Inr (object ''7''
                [(''email'', ''jane@example.com''), (''firstname'', ''Jane''), (''lastname'', ''Doe'')]))"
    by (simp add: demo_fetch demo_base c)
  have fm: "failed_fetch (fst (fetch demo (associationsRequest ''7'' Meetings ''tok'' (HUBSPOT_BASE demo))
             (typeStart demo ''7'' ''tok'' start Meetings)))"
    by (simp add: demo_fetch demo_base m failed_fetch_def)
  have fk: "failed_fetch (fst (fetch demo (associationsRequest ''7'' Tasks ''tok'' (HUBSPOT_BASE demo))
             (typeStart demo ''7'' ''tok'' start Tasks)))"
    by (simp add: demo_fetch demo_base k failed_fetch_def res_ok_def)
  have r: "res_ok 200" by (simp add: res_ok_def)
  have ev: "env demo_repaired = env demo"
    by (simp add: demo_repaired_def)
  have a: "\<forall>w w2 q. q \<noteq> associationsRequest ''7'' Meetings ''tok'' (HUBSPOT_BASE demo) \<longrightarrow>
                     fst (net demo_repaired w2 q) = fst (net demo w q)"
    unfolding demo_base by (simp add: demo_repaired_def demo_def demo_net_def)
  have s7: "summary (fst (getContactActivitySummary demo ''7'' start)) = Some summary_7"
    by (simp add: demo_answer_7 summary_answer)
  obtain sm where sm: "summary (fst (getContactActivitySummary demo ''7'' start)) = Some sm"
    and iso0: "\<forall>(rt2 :: nat runtime) s2.
                env rt2 = env demo
                \<and> (\<forall>w w2 q. q \<noteq> associationsRequest ''7'' Meetings ''tok'' (HUBSPOT_BASE demo) \<longrightarrow>
                              fst (net rt2 w2 q) = fst (net demo w q)) \<longrightarrow>
                (\<exists>sm2. summary (fst (getContactActivitySummary rt2 ''7'' s2)) = Some sm2
                     \<and> (\<forall>j. j \<noteq> Meetings \<longrightarrow> entry sm2 j = entry sm j))"
    using association_failure_is_absorbed[where 'v = nat, OF demo_token n i cf r fm] by auto
  have "sm = summary_7"
    using sm by (simp add: s7)
  then have iso: "\<forall>(rt2 :: nat runtime) s2.
                env rt2 = env demo
                \<and> (\<forall>w w2 q. q \<noteq> associationsRequest ''7'' Meetings ''tok'' (HUBSPOT_BASE demo) \<longrightarrow>
                              fst (net rt2 w2 q) = fst (net demo w q)) \<longrightarrow>
                (\<exists>sm2. summary (fst (getContactActivitySummary rt2 ''7'' s2)) = Some sm2
                     \<and> (\<forall>j. j \<noteq> Meetings \<longrightarrow> entry sm2 j = entry summary_7 j))"
    using iso0 by (simp only:)
  have "\<exists>sm2. summary (fst (getContactActivitySummary demo_repaired ''7'' start)) = Some sm2
             \<and> (\<forall>j. j \<noteq> Meetings \<longrightarrow> entry sm2 j = entry summary_7 j)"
    by (rule iso[rule_format, of demo_repaired start, OF conjI[OF ev a]])
  then show ?thesis
    using association_failure_is_absorbed[where 'v = nat, OF demo_token n i cf r fk]
      demo_token c m k e o demo_answer_7
    by simp
qed

text \<open>
  C6. With no token configured (unset or empty), each of the six operations returns the
  failure envelope whose error is the missing-token message, and returns the state it
  was given: no request is made.
\<close>

theorem missing_token_short_circuits:
  assumes "\<not> truthy (TOKEN rt)"
  shows "getContactActivitySummary rt cid s = (failure missing_token, s)
         \<and> createContact rt ci s = (failure missing_token, s)
         \<and> updateContact rt ui s = (failure missing_token, s)
         \<and> updateDealStage rt di s = (failure missing_token, s)
         \<and> getDealPipelines rt s = (failure missing_token, s)
         \<and> searchContactByEmail rt em s = (failure missing_token, s)
         \<and> \<not> ok (failure missing_token)
         \<and> error (failure missing_token) = Some ''Missing HUBSPOT_PRIVATE_APP_TOKEN in environment.''"
proof -
  from assms have t: "TOKEN rt = None \<or> TOKEN rt = Some []"
    by (auto simp: truthy_def split: option.splits)
  have 1: "getContactActivitySummary rt cid s = (failure missing_token, s)"
    using t by (auto simp: getContactActivitySummary_def)
  have 2: "createContact rt ci s = (failure missing_token, s)"
    using t by (auto simp: createContact_def)
  have 3: "updateContact rt ui s = (failure missing_token, s)"
    using t by (auto simp: updateContact_def)
  have 4: "updateDealStage rt di s = (failure missing_token, s)"
    using t by (auto simp: updateDealStage_def)
  have 5: "getDealPipelines rt s = (failure missing_token, s)"
    using t by (auto simp: getDealPipelines_def)
  have 6: "searchContactByEmail rt em s = (failure missing_token, s)"
    using t by (auto simp: searchContactByEmail_def)
  have 7: "error (failure missing_token) = Some ''Missing HUBSPOT_PRIVATE_APP_TOKEN in environment.''"
    by (simp add: error_failure missing_token_def)
  show ?thesis
    using 1 2 3 4 5 6 7 ok_failure by simp
qed

theorem missing_token_short_circuits_witness:
  "\<not> truthy (TOKEN unconfigured)
   \<and> getContactActivitySummary unconfigured ''7'' start = (failure missing_token, start)
   \<and> searchContactByEmail unconfigured ''jane@example.com'' start = (failure missing_token, start)
   \<and> trace (snd (getDealPipelines unconfigured start)) = []
   \<and> length (trace (snd (getDealPipelines demo start))) = 1"
proof -
  have t: "\<not> truthy (TOKEN unconfigured)" by code_simp
  have d: "length (trace (snd (getDealPipelines demo start))) = 1" by code_simp
  have s: "trace start = []" by (simp add: start_def)
  show ?thesis
    using missing_token_short_circuits[OF t, of "''7''" start _ _ _ "''jane@example.com''"] t d s
    by simp
qed

subsection \<open>Normalisation\<close>

text \<open>
  C7. Normalisation has no failing case. A record whose properties hold only
  \<^verbatim>\<open>hs_createdate\<close> gives, for every type, a result with that date and no subject,
  body, status or direction; a record without properties gives none of the five; and a
  note never has a subject, whatever the record.
\<close>

theorem normalisation_total:
  "extractEngagementInfo ty
     \<lparr>json_message = m, json_id = i, json_properties = Some [(''hs_createdate'', d)],
      json_results = rs\<rparr>
   = \<lparr>info_id = (case i of None \<Rightarrow> [] | Some x \<Rightarrow> x), createdAt = Some d, subject = None,
      body = None, info_status = None, direction = None\<rparr>
   \<and> extractEngagementInfo ty
       \<lparr>json_message = m, json_id = i, json_properties = None, json_results = rs\<rparr>
     = \<lparr>info_id = (case i of None \<Rightarrow> [] | Some x \<Rightarrow> x), createdAt = None, subject = None,
        body = None, info_status = None, direction = None\<rparr>
   \<and> subject (extractEngagementInfo Notes data) = None"
  by (cases ty) (simp_all add: extractEngagementInfo_def get_prop_def Let_def)

subsection \<open>The merged list and the most recent engagement\<close>

text \<open>
  C3 (amended). The list that a run sorts is the merged list of its summary: the items of
  calls, emails, notes, tasks and meetings, in this order; the marker of the run is read
  from the head of what the sort returns. When the sort conforms to the standard and every
  \<^verbatim>\<open>createdAt\<close> in the list is absent, empty or parses, the comparator is
  consistent and the sorted list is in descending order of time, an absent or empty date counting as time 0, and items of
  equal time keep their order in the merged list; so the marker names the first item, in
  the order of the merged list, among those of greatest time.
\<close>

theorem merged_items_sorted:
  assumes "TOKEN rt = Some token" and "getContactActivitySummary rt cid s = (r, s')"
    and "summary r = Some sm" and "conforming rt" and "list_all (dated rt) (mergedItems sm)"
  shows "fst (snd (typesLoop rt cid token (HUBSPOT_BASE rt) engagementTypes
            (initialSummaries, [], snd (fetch rt (contactRequest cid token (HUBSPOT_BASE rt)) s))))
           = mergedItems sm
         \<and> recentActivity sm
             = recentActivityOf (Array_sort rt (compareFn rt) (mergedItems sm))
         \<and> consistent (compareFn rt) (mergedItems sm)
         \<and> sorted_wrt (\<lambda>a b. timeKey rt b \<le> timeKey rt a)
             (Array_sort rt (compareFn rt) (mergedItems sm))
         \<and> (\<forall>t. filter (\<lambda>a. timeKey rt a = t) (Array_sort rt (compareFn rt) (mergedItems sm))
                 = filter (\<lambda>a. timeKey rt a = t) (mergedItems sm))
         \<and> recentActivity sm
             = recentActivityOf
                 (filter (\<lambda>a. \<forall>b \<in> set (mergedItems sm). timeKey rt b \<le> timeKey rt a)
                    (mergedItems sm))"
proof -
  have m: "fst (snd (typesLoop rt cid token (HUBSPOT_BASE rt) engagementTypes
            (initialSummaries, [], snd (fetch rt (contactRequest cid token (HUBSPOT_BASE rt)) s))))
           = mergedItems sm"
    and h: "recentActivity sm
            = recentActivityOf (Array_sort rt (compareFn rt) (mergedItems sm))"
    using run_merged[OF assms(1-3)] by simp_all
  have c: "consistent (compareFn rt) (mergedItems sm)"
    by (rule consistent_dated[OF assms(5)])
  have d: "sorted_wrt (\<lambda>a b. timeKey rt b \<le> timeKey rt a)
             (Array_sort rt (compareFn rt) (mergedItems sm))"
    by (rule Array_sort_descending[OF assms(4,5)])
  have t: "\<forall>t. filter (\<lambda>a. timeKey rt a = t) (Array_sort rt (compareFn rt) (mergedItems sm))
                 = filter (\<lambda>a. timeKey rt a = t) (mergedItems sm)"
    by (intro allI Array_sort_stable[OF assms(4,5)])
  have f: "recentActivity sm
             = recentActivityOf
                 (filter (\<lambda>a. \<forall>b \<in> set (mergedItems sm). timeKey rt b \<le> timeKey rt a)
                    (mergedItems sm))"
    unfolding h by (rule Array_sort_head[OF assms(4,5)])
  show ?thesis
    by (intro conjI) (rule m h c d t f)+
qed

theorem merged_items_sorted_witness:
  "TOKEN demo = Some ''tok''
   \<and> summary (fst (getContactActivitySummary demo ''7'' start)) = Some summary_7
   \<and> conforming demo
   \<and> list_all (dated demo) (mergedItems summary_7)
   \<and> mergedItems summary_7 =
       [(Calls, Some ''2024-02-01T00:00:00.000Z''), (Calls, Some ''2024-01-01T00:00:00.000Z''),
        (Calls, Some ''2024-01-01T00:00:00.000Z''), (Calls, Some ''2024-01-01T00:00:00.000Z''),
        (Calls, None), (Notes, Some ''2024-03-01T00:00:00.000Z'')]
   \<and> Array_sort demo (compareFn demo) (mergedItems summary_7) =
       [(Notes, Some ''2024-03-01T00:00:00.000Z''), (Calls, Some ''2024-02-01T00:00:00.000Z''),
        (Calls, Some ''2024-01-01T00:00:00.000Z''), (Calls, Some ''2024-01-01T00:00:00.000Z''),
        (Calls, Some ''2024-01-01T00:00:00.000Z''), (Calls, None)]
   \<and> recentActivity summary_7 = ''Most recent: notes on 2024-03-01T00:00:00.000Z''
   \<and> recentActivityOf (mergedItems summary_7) = ''Most recent: calls on 2024-02-01T00:00:00.000Z''"
proof -
  obtain r s' where run: "getContactActivitySummary demo ''7'' start = (r, s')"
    by (cases "getContactActivitySummary demo ''7'' start")
  have sm: "summary r = Some summary_7"
    using demo_answer_7 by (simp add: run summary_answer)
  have d: "list_all (dated demo) (mergedItems summary_7)"
    by code_simp
  have w: "mergedItems summary_7 =
       [(Calls, Some ''2024-02-01T00:00:00.000Z''), (Calls, Some ''2024-01-01T00:00:00.000Z''),
        (Calls, Some ''2024-01-01T00:00:00.000Z''), (Calls, Some ''2024-01-01T00:00:00.000Z''),
        (Calls, None), (Notes, Some ''2024-03-01T00:00:00.000Z'')]
   \<and> Array_sort demo (compareFn demo) (mergedItems summary_7) =
       [(Notes, Some ''2024-03-01T00:00:00.000Z''), (Calls, Some ''2024-02-01T00:00:00.000Z''),
        (Calls, Some ''2024-01-01T00:00:00.000Z''), (Calls, Some ''2024-01-01T00:00:00.000Z''),
        (Calls, Some ''2024-01-01T00:00:00.000Z''), (Calls, None)]
   \<and> recentActivityOf (mergedItems summary_7) = ''Most recent: calls on 2024-02-01T00:00:00.000Z''"
    by code_simp
  have f: "recentActivityOf
             (filter (\<lambda>a. \<forall>b \<in> set (mergedItems summary_7). timeKey demo b \<le> timeKey demo a)
                (mergedItems summary_7))
           = ''Most recent: notes on 2024-03-01T00:00:00.000Z''"
    by code_simp
  have a: "summary (fst (getContactActivitySummary demo ''7'' start)) = Some summary_7"
    using sm by (simp add: run)
  have "recentActivity summary_7
        = recentActivityOf
            (filter (\<lambda>a. \<forall>b \<in> set (mergedItems summary_7). timeKey demo b \<le> timeKey demo a)
               (mergedItems summary_7))"
    using merged_items_sorted[OF demo_token run sm conforming_demo d] by blast
  then have "recentActivity summary_7 = ''Most recent: notes on 2024-03-01T00:00:00.000Z''"
    by (simp only: f)
  then show ?thesis
    using demo_token a conforming_demo d w by blast
qed

text \<open>
  The claim as written fails in two ways. Contact 8 has two calls, the first dated
  \<^verbatim>\<open>garbage\<close>: its time is \<^verbatim>\<open>NaN\<close>, the comparator answers \<^verbatim>\<open>NaN\<close> for the
  pair in either order and is not consistent; a stable sort that reads the answer as
  equal, as the one of this runtime, leaves the item first, and the marker names it.
  Contact 11 has a call without a date before a call of 1969: the comparator is
  consistent, the call without a date has time 0, the other a negative time, and the
  call without a date stays first: it is not the oldest.
\<close>

theorem merged_items_sorted_counterexample:
  "fst (getContactActivitySummary demo ''8'' start) = answer ''8'' ''Unknown'' None summary_8
   \<and> mergedItems summary_8
       = [(Calls, Some ''garbage''), (Calls, Some ''2024-01-01T00:00:00.000Z'')]
   \<and> Date_getTime demo ''garbage'' = None
   \<and> compareFn demo (Calls, Some ''garbage'') (Calls, Some ''2024-01-01T00:00:00.000Z'') = None
   \<and> compareFn demo (Calls, Some ''2024-01-01T00:00:00.000Z'') (Calls, Some ''garbage'') = None
   \<and> Array_sort demo (compareFn demo) (mergedItems summary_8)
       = [(Calls, Some ''garbage''), (Calls, Some ''2024-01-01T00:00:00.000Z'')]
   \<and> recentActivity summary_8 = ''Most recent: calls on garbage''
   \<and> fst (getContactActivitySummary demo ''11'' start) = answer ''11'' ''Unknown'' None summary_11
   \<and> mergedItems summary_11 = [(Calls, None), (Calls, Some ''1969-12-31T00:00:00.000Z'')]
   \<and> consistent (compareFn demo) (mergedItems summary_11)
   \<and> compareFn demo (Calls, None) (Calls, Some ''1969-12-31T00:00:00.000Z'')
       = Some (- 86400000)
   \<and> Array_sort demo (compareFn demo) (mergedItems summary_11)
       = [(Calls, None), (Calls, Some ''1969-12-31T00:00:00.000Z'')]
   \<and> recentActivity summary_11 = ''Most recent: calls on unknown date''"
proof -
  have "mergedItems summary_8
       = [(Calls, Some ''garbage''), (Calls, Some ''2024-01-01T00:00:00.000Z'')]
   \<and> Date_getTime demo ''garbage'' = None
   \<and> compareFn demo (Calls, Some ''garbage'') (Calls, Some ''2024-01-01T00:00:00.000Z'') = None
   \<and> compareFn demo (Calls, Some ''2024-01-01T00:00:00.000Z'') (Calls, Some ''garbage'') = None
   \<and> Array_sort demo (compareFn demo) (mergedItems summary_8)
       = [(Calls, Some ''garbage''), (Calls, Some ''2024-01-01T00:00:00.000Z'')]
   \<and> recentActivity summary_8 = ''Most recent: calls on garbage''
   \<and> mergedItems summary_11 = [(Calls, None), (Calls, Some ''1969-12-31T00:00:00.000Z'')]
   \<and> consistent (compareFn demo) (mergedItems summary_11)
   \<and> compareFn demo (Calls, None) (Calls, Some ''1969-12-31T00:00:00.000Z'')
       = Some (- 86400000)
   \<and> Array_sort demo (compareFn demo) (mergedItems summary_11)
       = [(Calls, None), (Calls, Some ''1969-12-31T00:00:00.000Z'')]
   \<and> recentActivity summary_11 = ''Most recent: calls on unknown date''"
    by code_simp
  then show ?thesis
    using demo_answer_8 demo_answer_11 by blast
qed

text \<open>
  C4 (amended). The marker is computed from the head of the sorted merged list, whatever
  the sort of the runtime returns. When that sort returns an arrangement of its array, as
  the standard asks, the marker is the sentinel exactly when the merged list is empty,
  that is, when no item was fetched. Otherwise it names the type and the date of a fetched
  item, an absent date being shown as \<^verbatim>\<open>unknown date\<close>; when every
  \<^verbatim>\<open>createdAt\<close> in the list is absent, empty or parses, the time of that item is
  the greatest, an absent or empty date counting as time 0.
\<close>

theorem most_recent_is_head:
  assumes "TOKEN rt = Some token" and "getContactActivitySummary rt cid s = (r, s')"
    and "summary r = Some sm" and "conforming rt"
  shows "recentActivity sm = recentActivityOf (Array_sort rt (compareFn rt) (mergedItems sm))
         \<and> (recentActivity sm = ''No recent activity found'') = (mergedItems sm = [])
         \<and> (mergedItems sm \<noteq> [] \<longrightarrow>
              (\<exists>a \<in> set (mergedItems sm).
                 recentActivity sm =
                   ''Most recent: '' @ type_name (fst a) @ '' on ''
                   @ (case snd a of None \<Rightarrow> ''unknown date'' | Some d \<Rightarrow> d)
                 \<and> (list_all (dated rt) (mergedItems sm) \<longrightarrow>
                      (\<forall>b \<in> set (mergedItems sm). timeKey rt b \<le> timeKey rt a))))"
proof -
  let ?xs = "mergedItems sm"
  let ?ys = "Array_sort rt (compareFn rt) ?xs"
  have m: "recentActivity sm = recentActivityOf ?ys"
    using run_merged[OF assms(1-3)] by simp
  have e: "(recentActivity sm = ''No recent activity found'') = (?xs = [])"
    by (simp add: m recentActivityOf_sentinel Array_sort_Nil[OF assms(4)])
  have h: "\<exists>a \<in> set ?xs.
             recentActivity sm =
               ''Most recent: '' @ type_name (fst a) @ '' on ''
               @ (case snd a of None \<Rightarrow> ''unknown date'' | Some d \<Rightarrow> d)
             \<and> (list_all (dated rt) ?xs \<longrightarrow> (\<forall>b \<in> set ?xs. timeKey rt b \<le> timeKey rt a))"
    if ne: "?xs \<noteq> []"
  proof -
    obtain a rest where ys: "?ys = a # rest"
      using ne Array_sort_Nil[OF assms(4), of "compareFn rt" ?xs] by (cases ?ys) auto
    have mem: "set (a # rest) = set ?xs"
      using set_Array_sort[OF assms(4), of "compareFn rt" ?xs] by (simp add: ys)
    have g: "\<forall>b \<in> set ?xs. timeKey rt b \<le> timeKey rt a" if d: "list_all (dated rt) ?xs"
    proof -
      have "sorted_wrt (\<lambda>a b. timeKey rt b \<le> timeKey rt a) (a # rest)"
        using Array_sort_descending[OF assms(4) d] by (simp add: ys)
      then show ?thesis
        using sorted_head_greatest mem by blast
    qed
    have "recentActivity sm =
               ''Most recent: '' @ type_name (fst a) @ '' on ''
               @ (case snd a of None \<Rightarrow> ''unknown date'' | Some d \<Rightarrow> d)"
      by (simp add: m ys recentActivityOf_def)
    moreover have "a \<in> set ?xs" using mem by auto
    ultimately show ?thesis using g by blast
  qed
  show ?thesis
    using m e h by blast
qed

theorem most_recent_is_head_witness:
  "TOKEN demo = Some ''tok''
   \<and> conforming demo
   \<and> summary (fst (getContactActivitySummary demo ''7'' start)) = Some summary_7
   \<and> mergedItems summary_7 \<noteq> [] \<and> list_all (dated demo) (mergedItems summary_7)
   \<and> recentActivity summary_7 = ''Most recent: notes on 2024-03-01T00:00:00.000Z''
   \<and> timeKey demo (Notes, Some ''2024-03-01T00:00:00.000Z'') = 1709251200000
   \<and> map (timeKey demo) (mergedItems summary_7)
       = [1706745600000, 1704067200000, 1704067200000, 1704067200000, 0, 1709251200000]
   \<and> summary (fst (getContactActivitySummary demo ''10'' start)) = Some summary_10
   \<and> mergedItems summary_10 = []
   \<and> recentActivity summary_10 = ''No recent activity found''"
proof -
  obtain r s' where run: "getContactActivitySummary demo ''7'' start = (r, s')"
    by (cases "getContactActivitySummary demo ''7'' start")
  have sm: "summary r = Some summary_7"
    using demo_answer_7 by (simp add: run summary_answer)
  have z: "summary (fst (getContactActivitySummary demo ''10'' start)) = Some summary_10"
    by (simp add: demo_answer_10 summary_answer)
  have w: "mergedItems summary_7 \<noteq> [] \<and> list_all (dated demo) (mergedItems summary_7)
   \<and> recentActivity summary_7 = ''Most recent: notes on 2024-03-01T00:00:00.000Z''
   \<and> timeKey demo (Notes, Some ''2024-03-01T00:00:00.000Z'') = 1709251200000
   \<and> map (timeKey demo) (mergedItems summary_7)
       = [1706745600000, 1704067200000, 1704067200000, 1704067200000, 0, 1709251200000]
   \<and> mergedItems summary_10 = []
   \<and> recentActivity summary_10 = ''No recent activity found''"
    by code_simp
  have a: "summary (fst (getContactActivitySummary demo ''7'' start)) = Some summary_7"
    using sm by (simp add: run)
  have "recentActivity summary_7
        = recentActivityOf (Array_sort demo (compareFn demo) (mergedItems summary_7))"
    using most_recent_is_head[OF demo_token run sm conforming_demo] by blast
  then show ?thesis
    using demo_token conforming_demo a z w by blast
qed

text \<open>
  The claim as written fails when items were fetched and none has a date. Contact 9 has
  one call without \<^verbatim>\<open>hs_createdate\<close>: no item has a timestamp that parses, the
  merged list is not empty, and the marker is not the sentinel.
\<close>

theorem most_recent_is_head_counterexample:
  "fst (getContactActivitySummary demo ''9'' start) = answer ''9'' ''Unknown'' None summary_9
   \<and> mergedItems summary_9 = [(Calls, None)]
   \<and> recentActivity summary_9 = ''Most recent: calls on unknown date''"
proof -
  have "mergedItems summary_9 = [(Calls, None)]
   \<and> recentActivity summary_9 = ''Most recent: calls on unknown date''"
    by code_simp
  then show ?thesis
    using demo_answer_9 by blast
qed

subsection \<open>The text\<close>

text \<open>
  C8. Without a summary the text is a fixed sentence. With one, the text is the lines,
  joined by newlines, of a header (the name and email line, a blank line, the total, the
  most recent activity, a blank line) followed by the sections for calls, emails,
  meetings, tasks and notes, in this order. A section is absent for a count of 0;
  otherwise it is a heading and the lines of at most 3 items (2 for notes), and all but
  the last section end with a blank line. The line of a note longer than 100 characters
  is its first 100 characters and an ellipsis. The text is a function of the result.
\<close>

theorem summary_text_layout:
  "(summary r = None \<longrightarrow> generateActivitySummaryText r = ''No activity summary available'')
   \<and> (summary r = Some sm \<longrightarrow>
        generateActivitySummaryText r =
          join [CHR 0x0A]
            ([''## Activity Summary for '' @ or_default (contactName r) ''Unknown''
                @ '' ('' @ or_default (email r) ''no email'' @ '')'',
              [],
              ''**Total Engagements:** '' @ show_nat (totalEngagements sm),
              ''**'' @ recentActivity sm @ ''**'',
              []]
             @ sectionOf ''Calls'' 3 (itemLine ''Call'') (calls sm) [[]]
             @ sectionOf ''Emails'' 3 (itemLine ''Email'') (emails sm) [[]]
             @ sectionOf ''Meetings'' 3 (itemLine ''Meeting'') (meetings sm) [[]]
             @ sectionOf ''Tasks'' 3 taskLine (tasks sm) [[]]
             @ sectionOf ''Notes'' 2 noteLine (notes sm) []))
   \<and> (count e = 0 \<longrightarrow> sectionOf title cap line e trailer = [])
   \<and> (count e > 0 \<longrightarrow>
        (\<exists>ls. sectionOf title cap line e trailer
                 = (''### '' @ title @ '' ('' @ show_nat (count e) @ '' total)'') # ls @ trailer
              \<and> ls = map line (take cap (items e)) \<and> length ls \<le> cap))
   \<and> (body x = Some b \<and> length b > 100 \<longrightarrow> noteLine x = ''- '' @ take 100 b @ ''...'')
   \<and> (body x = Some b \<and> b \<noteq> [] \<and> length b \<le> 100 \<longrightarrow> noteLine x = ''- '' @ b)"
proof -
  have 1: "summary r = None \<longrightarrow> generateActivitySummaryText r = ''No activity summary available''"
    by (simp add: generateActivitySummaryText_def)
  have 2: "generateActivitySummaryText r =
          join [CHR 0x0A]
            ([''## Activity Summary for '' @ or_default (contactName r) ''Unknown''
                @ '' ('' @ or_default (email r) ''no email'' @ '')'',
              [],
              ''**Total Engagements:** '' @ show_nat (totalEngagements sm),
              ''**'' @ recentActivity sm @ ''**'',
              []]
             @ sectionOf ''Calls'' 3 (itemLine ''Call'') (calls sm) [[]]
             @ sectionOf ''Emails'' 3 (itemLine ''Email'') (emails sm) [[]]
             @ sectionOf ''Meetings'' 3 (itemLine ''Meeting'') (meetings sm) [[]]
             @ sectionOf ''Tasks'' 3 taskLine (tasks sm) [[]]
             @ sectionOf ''Notes'' 2 noteLine (notes sm) [])"
    if "summary r = Some sm"
    using that by (simp add: generateActivitySummaryText_def sectionOf_def Let_def)
  have 3: "count e = 0 \<longrightarrow> sectionOf title cap line e trailer = []"
    by (simp add: sectionOf_def)
  have 4: "count e > 0 \<longrightarrow>
        (\<exists>ls. sectionOf title cap line e trailer
                 = (''### '' @ title @ '' ('' @ show_nat (count e) @ '' total)'') # ls @ trailer
              \<and> ls = map line (take cap (items e)) \<and> length ls \<le> cap)"
    by (simp add: sectionOf_def)
  have 5: "body x = Some b \<and> length b > 100 \<longrightarrow> noteLine x = ''- '' @ take 100 b @ ''...''"
    by (auto simp: noteLine_def or_default_def Let_def)
  have 6: "body x = Some b \<and> b \<noteq> [] \<and> length b \<le> 100 \<longrightarrow> noteLine x = ''- '' @ b"
    by (auto simp: noteLine_def or_default_def Let_def)
  show ?thesis
    using 1 2 3 4 5 6 by blast
qed

theorem summary_text_layout_witness:
  "summary sample_result \<noteq> None
   \<and> generateActivitySummaryText sample_result =
       join [CHR 0x0A]
         [''## Activity Summary for Jane Doe (jane@example.com)'',
          [],
          ''**Total Engagements:** 14'',
          ''**Most recent: calls on 2024-02-01T00:00:00.000Z**'',
          [],
          ''### Calls (12 total)'',
          ''- Intro (2024-02-01T00:00:00.000Z)'',
          ''- Call (2024-02-01T00:00:00.000Z)'',
          ''- Demo (2024-02-01T00:00:00.000Z)'',
          [],
          ''### Notes (2 total)'',
          ''- '' @ replicate 100 (CHR ''x'') @ ''...'',
          ''- short'']
   \<and> sectionOf ''Emails'' 3 (itemLine ''Email'') (emails (the (summary sample_result))) [[]] = []
   \<and> length (sectionOf ''Calls'' 3 (itemLine ''Call'') (calls (the (summary sample_result))) [[]])
       = 5"
proof -
  have s: "summary sample_result \<noteq> None" by code_simp
  then obtain sm where sm: "summary sample_result = Some sm" by auto
  have w: "generateActivitySummaryText sample_result =
       join [CHR 0x0A]
         [''## Activity Summary for Jane Doe (jane@example.com)'',
          [],
          ''**Total Engagements:** 14'',
          ''**Most recent: calls on 2024-02-01T00:00:00.000Z**'',
          [],
          ''### Calls (12 total)'',
          ''- Intro (2024-02-01T00:00:00.000Z)'',
          ''- Call (2024-02-01T00:00:00.000Z)'',
          ''- Demo (2024-02-01T00:00:00.000Z)'',
          [],
          ''### Notes (2 total)'',
          ''- '' @ replicate 100 (CHR ''x'') @ ''...'',
          ''- short'']"
    by code_simp
  have e: "sectionOf ''Emails'' 3 (itemLine ''Email'') (emails (the (summary sample_result))) [[]] = []
   \<and> length (sectionOf ''Calls'' 3 (itemLine ''Call'') (calls (the (summary sample_result))) [[]])
       = 5"
    by code_simp
  show ?thesis
    using summary_text_layout[of sample_result sm "emails sm" "''Emails''" 3 "itemLine ''Email''" "[[]]"]
      s w e
    by simp
qed

subsection \<open>The tools\<close>

text \<open>
  C9. Both forms of the tool look the deal up first. When the lookup fails, the tool
  returns the failure that names the deal, and none of the requests it made is a
  \<^verbatim>\<open>PATCH\<close>. When the tool succeeds, it made the lookup and then the
  \<^verbatim>\<open>PATCH\<close>, and \<^verbatim>\<open>previousDeal\<close> is the body that the lookup returned.
\<close>

theorem unresolved_deal_is_not_patched:
  "(\<not> ok (fst (getDealById rt (in_dealId p) s)) \<longrightarrow>
      fst (UpdateDealStageTool_execute rt p s)
        = failure (''Could not find deal with ID '' @ in_dealId p @ '': ''
                   @ shown (error (fst (getDealById rt (in_dealId p) s))))
      \<and> list_all (\<lambda>q. verb q \<noteq> PATCH) (issued s (snd (UpdateDealStageTool_execute rt p s))))
   \<and> (ok (fst (UpdateDealStageTool_execute rt p s)) \<longrightarrow>
        (\<exists>token st bd.
           TOKEN rt = Some token
           \<and> fst (fetch rt (dealRequest (in_dealId p) token (HUBSPOT_BASE rt)) s) = Replied st (Inr bd)
           \<and> res_ok st
           \<and> previousDeal (fst (UpdateDealStageTool_execute rt p s)) = Some bd
           \<and> issued s (snd (UpdateDealStageTool_execute rt p s))
               = [dealRequest (in_dealId p) token (HUBSPOT_BASE rt),
                  patchDealRequest (in_dealId p) (in_dealstage p) token (HUBSPOT_BASE rt)]))
   \<and> (TOKEN rt = Some token \<and> token \<noteq> []
        \<and> \<not> ok (fst (lookupDeal rt (in_dealId p) token (HUBSPOT_BASE rt) s)) \<longrightarrow>
        fst (tool_UpdateDealStage_execute rt p s)
          = failure (''Could not find deal with ID '' @ in_dealId p @ '': ''
                     @ shown (error (fst (lookupDeal rt (in_dealId p) token (HUBSPOT_BASE rt) s))))
        \<and> issued s (snd (tool_UpdateDealStage_execute rt p s))
            = [dealRequest (in_dealId p) token (HUBSPOT_BASE rt)])
   \<and> (ok (fst (tool_UpdateDealStage_execute rt p s)) \<longrightarrow>
        (\<exists>token st bd.
           TOKEN rt = Some token
           \<and> fst (fetch rt (dealRequest (in_dealId p) token (HUBSPOT_BASE rt)) s) = Replied st (Inr bd)
           \<and> res_ok st
           \<and> previousDeal (fst (tool_UpdateDealStage_execute rt p s)) = Some bd
           \<and> issued s (snd (tool_UpdateDealStage_execute rt p s))
               = [dealRequest (in_dealId p) token (HUBSPOT_BASE rt),
                  patchDealRequest (in_dealId p) (in_dealstage p) token (HUBSPOT_BASE rt)]))"
proof -
  let ?g = "getDealById rt (in_dealId p) s"
  have a: "fst (UpdateDealStageTool_execute rt p s)
        = failure (''Could not find deal with ID '' @ in_dealId p @ '': '' @ shown (error (fst ?g)))
      \<and> list_all (\<lambda>q. verb q \<noteq> PATCH) (issued s (snd (UpdateDealStageTool_execute rt p s)))"
    if f: "\<not> ok (fst ?g)"
  proof -
    obtain cur s1 where g: "?g = (cur, s1)" by (cases ?g)
    have e: "UpdateDealStageTool_execute rt p s
             = (failure (''Could not find deal with ID '' @ in_dealId p @ '': ''
                         @ shown (error (fst ?g))), snd ?g)"
      using f by (simp add: UpdateDealStageTool_execute_def g)
    show ?thesis
      using issued_getDealById[of s rt "in_dealId p"] by (auto simp: e not_patch_get)
  qed
  have b: "\<exists>token st bd.
           TOKEN rt = Some token
           \<and> fst (fetch rt (dealRequest (in_dealId p) token (HUBSPOT_BASE rt)) s) = Replied st (Inr bd)
           \<and> res_ok st
           \<and> previousDeal (fst (UpdateDealStageTool_execute rt p s)) = Some bd
           \<and> issued s (snd (UpdateDealStageTool_execute rt p s))
               = [dealRequest (in_dealId p) token (HUBSPOT_BASE rt),
                  patchDealRequest (in_dealId p) (in_dealstage p) token (HUBSPOT_BASE rt)]"
    if o: "ok (fst (UpdateDealStageTool_execute rt p s))"
  proof -
    obtain cur s1 where gc: "?g = (cur, s1)" by (cases ?g)
    have g: "ok (fst ?g)"
      using o by (auto simp: UpdateDealStageTool_execute_def gc ok_failure split: if_splits)
    have "truthy (TOKEN rt)"
      using g getDealById_no_token[of rt "in_dealId p" s] ok_failure[of missing_token]
      by (cases "truthy (TOKEN rt)") simp_all
    then obtain token where t: "TOKEN rt = Some token" "token \<noteq> []"
      by (auto simp: truthy_token)
    let ?base = "HUBSPOT_BASE rt"
    let ?l = "lookupDeal rt (in_dealId p) token ?base s"
    have gl: "?g = ?l" by (rule getDealById_token[OF t])
    obtain st bd where
      r: "fst (fetch rt (dealRequest (in_dealId p) token ?base) s) = Replied st (Inr bd)"
      and "res_ok st" and d: "deal (fst ?l) = Some bd"
      using ok_lookupDeal[of rt "in_dealId p" token ?base s] g gl by auto
    let ?u = "updateDealStage rt \<lparr>in_dealId = in_dealId p, in_dealstage = in_dealstage p,
                in_notes = in_notes p\<rparr> s1"
    obtain res s2 where u: "?u = (res, s2)" by (cases ?u)
    have lc: "?l = (cur, s1)" using gc gl by simp
    have ou: "ok (fst ?u)"
      using o g
      by (auto simp: UpdateDealStageTool_execute_def gc lc u split: if_splits)
    have ex: "UpdateDealStageTool_execute rt p s
              = ((fst ?u)\<lparr>message := Some (''Successfully updated deal stage to '' @ [CHR 0x27]
                                             @ in_dealstage p @ [CHR 0x27]),
                           previousDeal := deal (fst ?l)\<rparr>, snd ?u)"
      using ou g by (simp add: UpdateDealStageTool_execute_def gc lc u)
    have s1: "s1 = snd (fetch rt (dealRequest (in_dealId p) token ?base) s)"
      using snd_lookupDeal[of rt "in_dealId p" token ?base s] by (simp add: lc)
    have su: "snd ?u = snd (fetch rt (patchDealRequest (in_dealId p) (in_dealstage p) token ?base) s1)"
      using ou t by (auto simp: updateDealStage_def ok_failure snd_writeObject split: if_splits)
    have "issued s (snd ?u) = [dealRequest (in_dealId p) token ?base,
                  patchDealRequest (in_dealId p) (in_dealstage p) token ?base]"
      unfolding su unfolding s1 by (rule issued_fetch2)
    then show ?thesis
      using t r \<open>res_ok st\<close> d by (auto simp: ex)
  qed
  have c: "fst (tool_UpdateDealStage_execute rt p s)
          = failure (''Could not find deal with ID '' @ in_dealId p @ '': ''
                     @ shown (error (fst (lookupDeal rt (in_dealId p) token (HUBSPOT_BASE rt) s))))
        \<and> issued s (snd (tool_UpdateDealStage_execute rt p s))
            = [dealRequest (in_dealId p) token (HUBSPOT_BASE rt)]"
    if "TOKEN rt = Some token" "token \<noteq> []"
      "\<not> ok (fst (lookupDeal rt (in_dealId p) token (HUBSPOT_BASE rt) s))"
  proof -
    obtain cur s1 where l: "lookupDeal rt (in_dealId p) token (HUBSPOT_BASE rt) s = (cur, s1)"
      by (cases "lookupDeal rt (in_dealId p) token (HUBSPOT_BASE rt) s")
    have "s1 = snd (fetch rt (dealRequest (in_dealId p) token (HUBSPOT_BASE rt)) s)"
      using snd_lookupDeal[of rt "in_dealId p" token "HUBSPOT_BASE rt" s] by (simp add: l)
    then show ?thesis
      using that by (simp add: tool_UpdateDealStage_execute_def l issued_fetch)
  qed
  have d: "\<exists>token st bd.
           TOKEN rt = Some token
           \<and> fst (fetch rt (dealRequest (in_dealId p) token (HUBSPOT_BASE rt)) s) = Replied st (Inr bd)
           \<and> res_ok st
           \<and> previousDeal (fst (tool_UpdateDealStage_execute rt p s)) = Some bd
           \<and> issued s (snd (tool_UpdateDealStage_execute rt p s))
               = [dealRequest (in_dealId p) token (HUBSPOT_BASE rt),
                  patchDealRequest (in_dealId p) (in_dealstage p) token (HUBSPOT_BASE rt)]"
    if o: "ok (fst (tool_UpdateDealStage_execute rt p s))"
  proof -
    obtain token where t: "TOKEN rt = Some token" "token \<noteq> []"
      using o by (auto simp: tool_UpdateDealStage_execute_def ok_failure split: option.splits if_splits)
    let ?base = "HUBSPOT_BASE rt"
    let ?l = "lookupDeal rt (in_dealId p) token ?base s"
    let ?q = "patchDealRequest (in_dealId p) (in_dealstage p) token ?base"
    obtain cur s1 where l: "?l = (cur, s1)" by (cases ?l)
    have g: "ok (fst ?l)"
      using o t
      by (auto simp: tool_UpdateDealStage_execute_def l ok_failure split: if_splits)
    obtain st bd where
      r: "fst (fetch rt (dealRequest (in_dealId p) token ?base) s) = Replied st (Inr bd)"
      and "res_ok st" and d: "deal (fst ?l) = Some bd"
      using ok_lookupDeal[OF g] by auto
    obtain res s2 where f: "fetch rt ?q s1 = (res, s2)" by (cases "fetch rt ?q s1")
    have s1: "s1 = snd (fetch rt (dealRequest (in_dealId p) token ?base) s)"
      using snd_lookupDeal[of rt "in_dealId p" token ?base s] by (simp add: l)
    have pd: "previousDeal (fst (tool_UpdateDealStage_execute rt p s)) = deal (fst ?l)"
      using o t g
      by (auto simp: tool_UpdateDealStage_execute_def l f ok_failure result_def
               split: response.splits sum.splits if_splits)
    have sn: "snd (tool_UpdateDealStage_execute rt p s) = snd (fetch rt ?q s1)"
      using t g
      by (auto simp: tool_UpdateDealStage_execute_def l f
               split: response.splits sum.splits)
    have "issued s (snd (tool_UpdateDealStage_execute rt p s))
               = [dealRequest (in_dealId p) token ?base, ?q]"
      unfolding sn unfolding s1 by (rule issued_fetch2)
    then show ?thesis
      using t r \<open>res_ok st\<close> d pd by auto
  qed
  show ?thesis
    using a b c d by blast
qed

theorem unresolved_deal_is_not_patched_witness:
  "\<not> ok (fst (getDealById demo (in_dealId close_43) start))
   \<and> UpdateDealStageTool_execute demo close_43 start
       = (failure ''Could not find deal with ID 43: Deal not found'',
          \<lparr>world = 1, trace = [dealRequest ''43'' ''tok'' ''https://crm.test'']\<rparr>)
   \<and> tool_UpdateDealStage_execute demo close_43 start
       = UpdateDealStageTool_execute demo close_43 start
   \<and> (case UpdateDealStageTool_execute demo close_42 start of
        (r, s') \<Rightarrow>
          ok r \<and> previousDeal r = Some (object ''42'' [(''dealstage'', ''qualifiedtobuy'')])
          \<and> properties r = Some [(''dealstage'', ''closedwon'')]
          \<and> map verb (trace s') = [GET, PATCH])
   \<and> tool_UpdateDealStage_execute demo close_42 start
       = UpdateDealStageTool_execute demo close_42 start"
proof -
  have a: "\<not> ok (fst (getDealById demo (in_dealId close_43) start))" by code_simp
  have b: "UpdateDealStageTool_execute demo close_43 start
       = (failure ''Could not find deal with ID 43: Deal not found'',
          \<lparr>world = 1, trace = [dealRequest ''43'' ''tok'' ''https://crm.test'']\<rparr>)"
    by code_simp
  have c: "tool_UpdateDealStage_execute demo close_43 start
       = UpdateDealStageTool_execute demo close_43 start"
    by code_simp
  have d: "case UpdateDealStageTool_execute demo close_42 start of
        (r, s') \<Rightarrow>
          ok r \<and> previousDeal r = Some (object ''42'' [(''dealstage'', ''qualifiedtobuy'')])
          \<and> properties r = Some [(''dealstage'', ''closedwon'')]
          \<and> map verb (trace s') = [GET, PATCH]"
    by code_simp
  have e: "tool_UpdateDealStage_execute demo close_42 start
       = UpdateDealStageTool_execute demo close_42 start"
    by code_simp
  show ?thesis
    using unresolved_deal_is_not_patched[of demo close_43 start "''tok''"] a b c d e
    by simp
qed

text \<open>
  C10. Both forms of the tool search by equality on \<^verbatim>\<open>email\<close> first. When the search
  succeeds and its first result has an identifier, the tool answers
  \<^verbatim>\<open>ok: true, alreadyExists: true\<close> with that identifier and that contact, and the
  search is the only request made. When the search succeeds with no result, the search
  answers \<^verbatim>\<open>ok: true\<close> without an identifier and the tool goes on to create: the
  second and last request is the \<^verbatim>\<open>POST\<close> of the properties, the first of which is
  the email. The email is not empty, as the schema of the input demands.
\<close>

theorem chat_contact_is_searched_first:
  assumes "TOKEN rt = Some token" and "token \<noteq> []" and "chat_email p \<noteq> []"
    and "fetch rt (searchRequest (chat_email p) token (HUBSPOT_BASE rt)) s
         = (Replied st (Inr bd), s1)"
    and "res_ok st"
  shows "content (searchRequest (chat_email p) token (HUBSPOT_BASE rt))
           = Some (Search ''email'' ''EQ'' (chat_email p)
                     [''email'', ''firstname'', ''lastname'', ''phone'', ''company''])
         \<and> (json_results bd = Some (c # cs) \<and> truthy (entry_id c) \<longrightarrow>
              CreateContactFromChatTool_execute rt p s
                = ((result True)
                     \<lparr>alreadyExists := Some True, contactId := entry_id c,
                      message := Some (''Contact with email '' @ chat_email p
                                        @ '' already exists in HubSpot''),
                      contact := Some c\<rparr>, s1)
              \<and> tool_CreateContactFromChat_execute rt p s
                  = CreateContactFromChatTool_execute rt p s
              \<and> issued s s1 = [searchRequest (chat_email p) token (HUBSPOT_BASE rt)])
         \<and> (json_results bd = None \<or> json_results bd = Some [] \<longrightarrow>
              searchContactByEmail rt (chat_email p) s = (result True, s1)
              \<and> tool_searchContactByEmail rt (chat_email p) token (HUBSPOT_BASE rt) s
                  = (result True, s1)
              \<and> issued s (snd (CreateContactFromChatTool_execute rt p s))
                  = [searchRequest (chat_email p) token (HUBSPOT_BASE rt),
                     \<lparr>verb = POST, url = HUBSPOT_BASE rt @ ''/crm/v3/objects/contacts'',
                      bearer = token,
                      content = Some (Properties
                        ((''email'', chat_email p) # property ''firstname'' (chat_firstname p)
                         @ property ''lastname'' (chat_lastname p)
                         @ property ''phone'' (chat_phone p)
                         @ property ''company'' (chat_company p)))\<rparr>]
              \<and> issued s (snd (tool_CreateContactFromChat_execute rt p s))
                  = issued s (snd (CreateContactFromChatTool_execute rt p s)))"
proof -
  let ?base = "HUBSPOT_BASE rt"
  let ?em = "chat_email p"
  let ?ps = "(''email'', ?em) # property ''firstname'' (chat_firstname p)
             @ property ''lastname'' (chat_lastname p) @ property ''phone'' (chat_phone p)
             @ property ''company'' (chat_company p)"
  let ?q = "\<lparr>verb = POST, url = ?base @ ''/crm/v3/objects/contacts'', bearer = token,
            content = Some (Properties ?ps)\<rparr>"
  let ?input = "\<lparr>in_email = Some ?em, in_firstname = chat_firstname p,
                in_lastname = chat_lastname p, in_phone = chat_phone p,
                in_company = chat_company p\<rparr>"
  note sr = searchContactByEmail_reply[OF assms(1,2,4,5)]
  have s1: "s1 = snd (fetch rt (searchRequest ?em token ?base) s)"
    by (simp add: assms(4))
  have i1: "issued s s1 = [searchRequest ?em token ?base]"
    unfolding s1 by (rule issued_fetch)
  have 0: "content (searchRequest ?em token ?base)
           = Some (Search ''email'' ''EQ'' ?em
                     [''email'', ''firstname'', ''lastname'', ''phone'', ''company''])"
    by (simp add: searchRequest_def)
  have found: "CreateContactFromChatTool_execute rt p s
                = ((result True)
                     \<lparr>alreadyExists := Some True, contactId := entry_id c,
                      message := Some (''Contact with email '' @ ?em
                                        @ '' already exists in HubSpot''),
                      contact := Some c\<rparr>, s1)
              \<and> tool_CreateContactFromChat_execute rt p s
                  = CreateContactFromChatTool_execute rt p s"
    if "json_results bd = Some (c # cs)" and "truthy (entry_id c)"
    using that assms(1,2)
    by (simp add: CreateContactFromChatTool_execute_def tool_CreateContactFromChat_execute_def
                  sr result_def)
  have cp: "contactProperties ?input = ?ps"
    using assms(3) by (simp add: contactProperties_def property_def)
  have none: "searchContactByEmail rt ?em s = (result True, s1)
              \<and> tool_searchContactByEmail rt ?em token ?base s = (result True, s1)
              \<and> issued s (snd (CreateContactFromChatTool_execute rt p s))
                  = [searchRequest ?em token ?base, ?q]
              \<and> issued s (snd (tool_CreateContactFromChat_execute rt p s))
                  = issued s (snd (CreateContactFromChatTool_execute rt p s))"
    if z: "json_results bd = None \<or> json_results bd = Some []"
  proof -
    have a: "searchContactByEmail rt ?em s = (result True, s1)"
      and b: "tool_searchContactByEmail rt ?em token ?base s = (result True, s1)"
      using z sr by auto
    obtain res s2 where c: "createContact rt ?input s1 = (res, s2)"
      by (cases "createContact rt ?input s1")
    have "s2 = snd (fetch rt ?q s1)"
      using snd_createContact[OF assms(1,2), of ?input s1] by (simp add: cp c)
    then have e: "snd (CreateContactFromChatTool_execute rt p s) = snd (fetch rt ?q s1)"
      by (simp add: CreateContactFromChatTool_execute_def a c contactId_result truthy_def)
    obtain res' s2' where c': "tool_createContact rt ?ps token ?base s1 = (res', s2')"
      by (cases "tool_createContact rt ?ps token ?base s1")
    have "s2' = snd (fetch rt ?q s1)"
      using snd_tool_createContact[of rt ?ps token ?base s1] by (simp add: c')
    then have e': "snd (tool_CreateContactFromChat_execute rt p s) = snd (fetch rt ?q s1)"
      using assms(1,2)
      by (simp add: tool_CreateContactFromChat_execute_def b c' contactId_result truthy_def)
    have "issued s (snd (fetch rt ?q s1)) = [searchRequest ?em token ?base, ?q]"
      unfolding s1 by (rule issued_fetch2)
    then show ?thesis
      using a b by (simp add: e e')
  qed
  show ?thesis
    using 0 found none i1 by blast
qed

theorem chat_contact_is_searched_first_witness:
  "TOKEN demo = Some ''tok''
   \<and> fst (fetch demo (searchRequest (chat_email chat_jane) ''tok'' (HUBSPOT_BASE demo)) start)
       = Replied 200 (Inr (no_body\<lparr>json_results := Some [jane]\<rparr>))
   \<and> truthy (entry_id jane)
   \<and> (case CreateContactFromChatTool_execute demo chat_jane start of
        (r, s') \<Rightarrow>
          ok r \<and> alreadyExists r = Some True \<and> contactId r = Some ''7''
          \<and> map (\<lambda>q. (verb q, url q)) (trace s')
              = [(POST, ''https://crm.test/crm/v3/objects/contacts/search'')])
   \<and> fst (fetch demo (searchRequest (chat_email chat_neo) ''tok'' (HUBSPOT_BASE demo)) start)
       = Replied 200 (Inr (no_body\<lparr>json_results := Some []\<rparr>))
   \<and> (case CreateContactFromChatTool_execute demo chat_neo start of
        (r, s') \<Rightarrow>
          ok r \<and> alreadyExists r = Some False \<and> ident r = Some ''100''
          \<and> map (\<lambda>q. (verb q, url q, content q)) (trace s')
              = [(POST, ''https://crm.test/crm/v3/objects/contacts/search'',
                  Some (Search ''email'' ''EQ'' ''neo@example.com''
                          [''email'', ''firstname'', ''lastname'', ''phone'', ''company''])),
                 (POST, ''https://crm.test/crm/v3/objects/contacts'',
                  Some (Properties [(''email'', ''neo@example.com''), (''firstname'', ''Neo'')]))])
   \<and> tool_CreateContactFromChat_execute demo chat_jane start
       = CreateContactFromChatTool_execute demo chat_jane start
   \<and> tool_CreateContactFromChat_execute demo chat_neo start
       = CreateContactFromChatTool_execute demo chat_neo start"
proof -
  have t: "TOKEN demo = Some ''tok''" and n: "''tok'' \<noteq> []" by code_simp+
  have ej: "chat_email chat_jane \<noteq> []" and en: "chat_email chat_neo \<noteq> []" by code_simp+
  have fj: "fst (fetch demo (searchRequest (chat_email chat_jane) ''tok'' (HUBSPOT_BASE demo)) start)
       = Replied 200 (Inr (no_body\<lparr>json_results := Some [jane]\<rparr>))"
    by code_simp
  have fn: "fst (fetch demo (searchRequest (chat_email chat_neo) ''tok'' (HUBSPOT_BASE demo)) start)
       = Replied 200 (Inr (no_body\<lparr>json_results := Some []\<rparr>))"
    by code_simp
  have tj: "truthy (entry_id jane)" by code_simp
  have wj: "case CreateContactFromChatTool_execute demo chat_jane start of
        (r, s') \<Rightarrow>
          ok r \<and> alreadyExists r = Some True \<and> contactId r = Some ''7''
          \<and> map (\<lambda>q. (verb q, url q)) (trace s')
              = [(POST, ''https://crm.test/crm/v3/objects/contacts/search'')]"
    by code_simp
  have wn: "case CreateContactFromChatTool_execute demo chat_neo start of
        (r, s') \<Rightarrow>
          ok r \<and> alreadyExists r = Some False \<and> ident r = Some ''100''
          \<and> map (\<lambda>q. (verb q, url q, content q)) (trace s')
              = [(POST, ''https://crm.test/crm/v3/objects/contacts/search'',
                  Some (Search ''email'' ''EQ'' ''neo@example.com''
                          [''email'', ''firstname'', ''lastname'', ''phone'', ''company''])),
                 (POST, ''https://crm.test/crm/v3/objects/contacts'',
                  Some (Properties [(''email'', ''neo@example.com''), (''firstname'', ''Neo'')]))]"
    by code_simp
  have r: "res_ok 200" by (simp add: res_ok_def)
  have pj: "fetch demo (searchRequest (chat_email chat_jane) ''tok'' (HUBSPOT_BASE demo)) start
            = (Replied 200 (Inr (no_body\<lparr>json_results := Some [jane]\<rparr>)),
               snd (fetch demo (searchRequest (chat_email chat_jane) ''tok'' (HUBSPOT_BASE demo)) start))"
    using fj by (simp add: prod_eq_iff)
  have pn: "fetch demo (searchRequest (chat_email chat_neo) ''tok'' (HUBSPOT_BASE demo)) start
            = (Replied 200 (Inr (no_body\<lparr>json_results := Some []\<rparr>)),
               snd (fetch demo (searchRequest (chat_email chat_neo) ''tok'' (HUBSPOT_BASE demo)) start))"
    using fn by (simp add: prod_eq_iff)
  have rj: "json_results (no_body\<lparr>json_results := Some [jane]\<rparr>) = Some (jane # [])" by simp
  have rn: "json_results (no_body\<lparr>json_results := Some []\<rparr>) = Some []" by simp
  have j: "tool_CreateContactFromChat_execute demo chat_jane start
           = CreateContactFromChatTool_execute demo chat_jane start"
    using chat_contact_is_searched_first[OF t n ej pj r, of jane "[]"] rj tj by simp
  have ne: "tool_CreateContactFromChat_execute demo chat_neo start
           = CreateContactFromChatTool_execute demo chat_neo start"
    by code_simp
  show ?thesis
    using chat_contact_is_searched_first[OF t n en pn r, of jane "[]"] t fj fn tj wj wn j ne
    by simp
qed

end
